theory Spec2Isabelle
  imports Complex_Main "HOL-Library.Multiset"
begin

section \<open>Python values and errors\<close>

text \<open>
  The two analyzers of \<^verbatim>\<open>tritonbench/components/ncu\<close> are embedded as HOL functions.
  Every exception the Python raises is a value \<open>Inl e\<close> of the result type
  \<open>py_error + 'a\<close>; a normal return is \<open>Inr v\<close>.

  Numbers: the counters the profilers report and everything computed from them are
  modelled as exact reals. Rounding of IEEE doubles is not modelled; what is modelled is
  which operations are applied to which counters, in which order, and where a division
  raises \<^verbatim>\<open>ZeroDivisionError\<close> (in Python both \<^verbatim>\<open>1 / 0\<close> and
  \<^verbatim>\<open>1.0 / 0.0\<close> raise). A theorem that compares two orders of evaluation, which
  doubles tell apart and reals do not, assumes that the additions concerned are exact.
\<close>

datatype py_error =
    AssertionError string
  | FileNotFoundError string
  | KeyError string
  | ZeroDivisionError
  | RuntimeError string
  | CalledProcessError
  | ValueError

text \<open>Sequencing of two steps, the second of which runs only when the first returned.\<close>

definition and_then :: "py_error + 'a \<Rightarrow> ('a \<Rightarrow> py_error + 'b) \<Rightarrow> py_error + 'b" where
  "and_then m f = (case m of Inl e \<Rightarrow> Inl e | Inr x \<Rightarrow> f x)"

text \<open>Python's \<^verbatim>\<open>a / b\<close> on numbers.\<close>

definition truediv :: "real \<Rightarrow> real \<Rightarrow> py_error + real" where
  "truediv a b = (if b = 0 then Inl ZeroDivisionError else Inr (a / b))"

section \<open>ncu_analyzer.py\<close>

subsection \<open>The static tables\<close>

text \<open>The dictionaries are association lists in the order of the source.\<close>

definition short_ncu_metric_name :: "(string \<times> string) list" where
  "short_ncu_metric_name =
    [(''inst_executed_ffma_peak'', ''sm__sass_thread_inst_executed_op_ffma_pred_on.sum.peak_sustained''),
     (''inst_executed_dfma_peak'', ''sm__sass_thread_inst_executed_op_dfma_pred_on.sum.peak_sustained''),
     (''inst_executed_fadd'', ''smsp__sass_thread_inst_executed_op_fadd_pred_on.sum.per_cycle_elapsed''),
     (''inst_executed_fmul'', ''smsp__sass_thread_inst_executed_op_fmul_pred_on.sum.per_cycle_elapsed''),
     (''inst_executed_ffma'', ''smsp__sass_thread_inst_executed_op_ffma_pred_on.sum.per_cycle_elapsed''),
     (''inst_executed_dadd'', ''smsp__sass_thread_inst_executed_op_dadd_pred_on.sum.per_cycle_elapsed''),
     (''inst_executed_dmul'', ''smsp__sass_thread_inst_executed_op_dmul_pred_on.sum.per_cycle_elapsed''),
     (''inst_executed_dfma'', ''smsp__sass_thread_inst_executed_op_dfma_pred_on.sum.per_cycle_elapsed''),
     (''dram_bytes_write'', ''dram__bytes_write.sum''),
     (''dram_bytes_read'', ''dram__bytes_read.sum''),
     (''dram_bytes_per_second'', ''dram__bytes.sum.per_second''),
     (''dram_bytes'', ''dram__bytes.sum''),
     (''sm_freq'', ''smsp__cycles_elapsed.avg.per_second''),
     (''dram_bandwidth'', ''dram__bytes.sum.per_second''),
     (''duration'', ''gpu__time_duration.sum'')]"


text \<open>\<^verbatim>\<open>short_ncu_metric_name[key]\<close>: a missing key raises \<^verbatim>\<open>KeyError\<close>.\<close>

definition short_name :: "string \<Rightarrow> py_error + string" where
  "short_name key =
     (case map_of short_ncu_metric_name key of
        None \<Rightarrow> Inl (KeyError key)
      | Some full \<Rightarrow> Inr full)"

subsection \<open>Kernel records\<close>

text \<open>
  A kernel action belongs to the vendor's report object. The analyzer only calls
  \<^verbatim>\<open>kernel.metric_by_name(name).value()\<close> on it, so a kernel is the function from a
  full counter name to the value recorded for it.
\<close>

type_synonym kernel = "string \<Rightarrow> real"

text \<open>\<^verbatim>\<open>kernel.metric_by_name(short_ncu_metric_name[key]).value()\<close>\<close>

definition metric_value :: "kernel \<Rightarrow> string \<Rightarrow> py_error + real" where
  "metric_value kern key = and_then (short_name key) (\<lambda>full. Inr (kern full))"

definition get_mem_traffic :: "kernel \<Rightarrow> py_error + (real \<times> real)" where
  "get_mem_traffic kern =
     and_then (metric_value kern ''dram_bytes_read'') (\<lambda>rd.
     and_then (metric_value kern ''dram_bytes_write'') (\<lambda>wr.
     Inr (rd, wr)))"

definition get_duration :: "kernel \<Rightarrow> py_error + real" where
  "get_duration kern = metric_value kern ''duration''"

definition get_flops :: "kernel \<Rightarrow> py_error + (real \<times> real)" where
  "get_flops kern =
     and_then (metric_value kern ''inst_executed_fadd'') (\<lambda>fp32_add_achieved.
     and_then (metric_value kern ''inst_executed_fmul'') (\<lambda>fp32_mul_achieved.
     and_then (metric_value kern ''inst_executed_ffma'') (\<lambda>fp32_fma_achieved.
     let fp32_achieved = fp32_add_achieved + fp32_mul_achieved + 2 * fp32_fma_achieved in
     and_then (metric_value kern ''inst_executed_dadd'') (\<lambda>fp64_add_achieved.
     and_then (metric_value kern ''inst_executed_dmul'') (\<lambda>fp64_mul_achieved.
     and_then (metric_value kern ''inst_executed_dfma'') (\<lambda>fp64_fma_achieved.
     let fp64_achieved = fp64_add_achieved + fp64_mul_achieved + 2 * fp64_fma_achieved in
     and_then (metric_value kern ''sm_freq'') (\<lambda>sm_freq.
     let fp32_flops = fp32_achieved * sm_freq;
         fp64_flops = fp64_achieved * sm_freq
     in Inr (fp32_flops, fp64_flops))))))))"

definition get_arithmetic_intensity :: "kernel \<Rightarrow> py_error + (real \<times> real)" where
  "get_arithmetic_intensity kern =
     and_then (metric_value kern ''dram_bandwidth'') (\<lambda>dram_bandwidth.
     and_then (get_flops kern) (\<lambda>(fp32_flops, fp64_flops).
     and_then (truediv fp32_flops dram_bandwidth) (\<lambda>fp32_arithmetic_intensity.
     and_then (truediv fp64_flops dram_bandwidth) (\<lambda>fp64_arithmetic_intensity.
     Inr (fp32_arithmetic_intensity, fp64_arithmetic_intensity)))))"

subsection \<open>The results dictionary and the local variables of \<open>read_ncu_report\<close>\<close>

text \<open>
  \<^verbatim>\<open>results = defaultdict(list)\<close> is only ever used with the eleven literal keys below,
  each with values of one type, so the dictionary is a record with one optional field per
  key: \<open>None\<close> is a key that is absent. The local accumulators of the function extend
  the record; \<open>ncu_results.truncate\<close> forgets them and leaves what is returned.
\<close>

record ncu_results =
  durations :: "real list option"
  memory_traffic_raw :: "(real \<times> real) list option"
  arithmetic_intensity_raw :: "(real \<times> real) list option"
  ncu_tflops_raw :: "(real \<times> real) list option"
  memory_traffic_read_sum :: "real option"
  memory_traffic_write_sum :: "real option"
  memory_traffic :: "(real \<times> real) option"
  weighted_fp32_arithmetic_intensity :: "real option"
  weighted_fp64_arithmetic_intensity :: "real option"
  arithmetic_intensity :: "(real \<times> real) option"
  ncu_tflops :: "(real \<times> real) option"

record ncu_state = ncu_results +
  total_duration :: real
  total_dram_bytes :: real
  weighted_fp32_ai_sum :: real
  weighted_fp64_ai_sum :: real

text \<open>
  Reading \<^verbatim>\<open>results[key]\<close> of a \<^verbatim>\<open>defaultdict(list)\<close>: an absent key reads as the
  empty list (and the key is stored with it).
\<close>

fun dd_list :: "'a list option \<Rightarrow> 'a list" where
  "dd_list None = []"
| "dd_list (Some xs) = xs"

text \<open>The keys of the returned dictionary, in the order of the fields above.\<close>

definition result_keys :: "ncu_results \<Rightarrow> string list" where
  "result_keys r =
     (if durations r = None then [] else [''durations'']) @
     (if memory_traffic_raw r = None then [] else [''memory_traffic_raw'']) @
     (if arithmetic_intensity_raw r = None then [] else [''arithmetic_intensity_raw'']) @
     (if ncu_tflops_raw r = None then [] else [''ncu_tflops_raw'']) @
     (if memory_traffic_read_sum r = None then [] else [''memory_traffic_read_sum'']) @
     (if memory_traffic_write_sum r = None then [] else [''memory_traffic_write_sum'']) @
     (if memory_traffic r = None then [] else [''memory_traffic'']) @
     (if weighted_fp32_arithmetic_intensity r = None then []
      else [''weighted_fp32_arithmetic_intensity'']) @
     (if weighted_fp64_arithmetic_intensity r = None then []
      else [''weighted_fp64_arithmetic_intensity'']) @
     (if arithmetic_intensity r = None then [] else [''arithmetic_intensity'']) @
     (if ncu_tflops r = None then [] else [''ncu_tflops''])"

text \<open>The state before the loop: an empty dictionary and the four totals at 0.\<close>

definition initial_state :: ncu_state where
  "initial_state =
     \<lparr>durations = None, memory_traffic_raw = None, arithmetic_intensity_raw = None,
      ncu_tflops_raw = None, memory_traffic_read_sum = None,
      memory_traffic_write_sum = None, memory_traffic = None,
      weighted_fp32_arithmetic_intensity = None, weighted_fp64_arithmetic_intensity = None,
      arithmetic_intensity = None, ncu_tflops = None,
      total_duration = 0, total_dram_bytes = 0,
      weighted_fp32_ai_sum = 0, weighted_fp64_ai_sum = 0\<rparr>"

subsection \<open>The environment of \<open>read_ncu_report\<close>\<close>

text \<open>
  What the function reads from outside: whether the report file exists, what
  \<^verbatim>\<open>shutil.which("ncu")\<close> finds, whether \<^verbatim>\<open>extras/python\<close> exists beside it, and the
  loaded report: its ranges, each the list of its kernel actions in index order.
\<close>

record ncu_env =
  report_path :: string
  report_exists :: bool
  which_ncu :: "string option"
  extras_python_exists :: bool
  report_ranges :: "kernel list list"

text \<open>
  \<^verbatim>\<open>_import_ncu_python_path\<close>. \<^verbatim>\<open>not ncu_path\<close> holds for \<^verbatim>\<open>None\<close> and for the empty
  string. The two messages are \<open>''ncu not in PATH''\<close> and \<open>''extras/python missing''\<close>
  for short.
\<close>

definition import_ncu_python_path :: "ncu_env \<Rightarrow> py_error + unit" where
  "import_ncu_python_path env =
     (case which_ncu env of
        None \<Rightarrow> Inl (FileNotFoundError ''ncu not in PATH'')
      | Some ncu_path \<Rightarrow>
          if ncu_path = [] then Inl (FileNotFoundError ''ncu not in PATH'')
          else if \<not> extras_python_exists env
          then Inl (FileNotFoundError ''extras/python missing'')
          else Inr ())"

subsection \<open>\<open>read_ncu_report\<close>\<close>

text \<open>The body of the loop over the kernel actions (lines 196 to 215).\<close>

definition loop_body :: "string list \<Rightarrow> kernel \<Rightarrow> ncu_state \<Rightarrow> py_error + ncu_state" where
  "loop_body required_metrics kern st0 =
     and_then
       (if set required_metrics \<inter> {''arithmetic_intensity'', ''ncu_tflops''} \<noteq> {}
        then and_then (get_duration kern) (\<lambda>duration.
               Inr (st0\<lparr>durations := Some (dd_list (durations st0) @ [duration]),
                        total_duration := total_duration st0 + duration\<rparr>))
        else Inr st0) (\<lambda>st1.
     and_then
       (if ''memory_traffic'' \<in> set required_metrics
        then and_then (get_mem_traffic kern) (\<lambda>traffic.
               Inr (st1\<lparr>memory_traffic_raw :=
                          Some (dd_list (memory_traffic_raw st1) @ [traffic])\<rparr>))
        else Inr st1) (\<lambda>st2.
     and_then
       (if ''arithmetic_intensity'' \<in> set required_metrics
        then and_then (metric_value kern ''dram_bytes'') (\<lambda>dram_bytes.
             and_then (get_arithmetic_intensity kern) (\<lambda>(fp32_ai, fp64_ai).
               Inr (st2\<lparr>weighted_fp32_ai_sum := weighted_fp32_ai_sum st2 + fp32_ai * dram_bytes,
                        weighted_fp64_ai_sum := weighted_fp64_ai_sum st2 + fp64_ai * dram_bytes,
                        arithmetic_intensity_raw :=
                          Some (dd_list (arithmetic_intensity_raw st2) @ [(fp32_ai, fp64_ai)]),
                        total_dram_bytes := total_dram_bytes st2 + dram_bytes\<rparr>)))
        else Inr st2) (\<lambda>st3.
     if ''ncu_tflops'' \<in> set required_metrics
     then and_then (get_flops kern) (\<lambda>flops.
            Inr (st3\<lparr>ncu_tflops_raw := Some (dd_list (ncu_tflops_raw st3) @ [flops])\<rparr>))
     else Inr st3)))"

text \<open>\<^verbatim>\<open>for i in range(default_range.num_actions())\<close>: the actions in index order.\<close>

fun kernel_loop :: "string list \<Rightarrow> kernel list \<Rightarrow> ncu_state \<Rightarrow> py_error + ncu_state" where
  "kernel_loop required_metrics [] st = Inr st"
| "kernel_loop required_metrics (kern # rest) st =
     and_then (loop_body required_metrics kern st) (kernel_loop required_metrics rest)"

text \<open>
  Lines 217 to 225. \<^verbatim>\<open>sum(xs)\<close> starts from 0 and adds the items left to right; it is
  modelled by the exact sum, which is what the additions of doubles give as long as
  none of them rounds.
\<close>

definition memory_traffic_block :: "string list \<Rightarrow> ncu_state \<Rightarrow> ncu_state" where
  "memory_traffic_block required_metrics st =
     (if ''memory_traffic'' \<in> set required_metrics
      then let raw = dd_list (memory_traffic_raw st);
               memory_traffic_read = map fst raw;
               memory_traffic_write = map snd raw
           in st\<lparr>memory_traffic_raw := Some raw,
                 memory_traffic_read_sum := Some (sum_list memory_traffic_read),
                 memory_traffic_write_sum := Some (sum_list memory_traffic_write),
                 memory_traffic :=
                   Some (sum_list memory_traffic_read, sum_list memory_traffic_write)\<rparr>
      else st)"

text \<open>Lines 226 to 236.\<close>

definition arithmetic_intensity_block :: "string list \<Rightarrow> ncu_state \<Rightarrow> py_error + ncu_state" where
  "arithmetic_intensity_block required_metrics st =
     (if ''arithmetic_intensity'' \<in> set required_metrics
      then and_then (truediv (weighted_fp32_ai_sum st) (total_dram_bytes st)) (\<lambda>w32.
           and_then (truediv (weighted_fp64_ai_sum st) (total_dram_bytes st)) (\<lambda>w64.
           Inr (st\<lparr>weighted_fp32_arithmetic_intensity := Some w32,
                   weighted_fp64_arithmetic_intensity := Some w64,
                   arithmetic_intensity := Some (w32, w64)\<rparr>)))
      else Inr st)"

text \<open>
  Lines 237 to 256. \<^verbatim>\<open>assert results["durations"]\<close> fails on an empty list;
  \<^verbatim>\<open>10**12\<close> is never 0.
\<close>

definition ncu_tflops_block :: "string list \<Rightarrow> ncu_state \<Rightarrow> py_error + ncu_state" where
  "ncu_tflops_block required_metrics st =
     (if ''ncu_tflops'' \<in> set required_metrics
      then let ds = dd_list (durations st) in
           if ds = [] then Inl (AssertionError ''No kernel durations found in the NCU report.'')
           else
             let raw = dd_list (ncu_tflops_raw st);
                 weighted_fp32_flops_sum = sum_list (map (\<lambda>(flop, dur). fst flop * dur) (zip raw ds));
                 weighted_fp64_flops_sum = sum_list (map (\<lambda>(flop, dur). snd flop * dur) (zip raw ds));
                 weighted_fp32_tflops_sum = weighted_fp32_flops_sum / 10 ^ 12;
                 weighted_fp64_tflops_sum = weighted_fp64_flops_sum / 10 ^ 12
             in and_then (truediv weighted_fp32_tflops_sum (total_duration st)) (\<lambda>t32.
                and_then (truediv weighted_fp64_tflops_sum (total_duration st)) (\<lambda>t64.
                Inr (st\<lparr>durations := Some ds, ncu_tflops_raw := Some raw,
                        ncu_tflops := Some (t32, t64)\<rparr>)))
      else Inr st)"

text \<open>The whole function, from the first assertion to \<^verbatim>\<open>return results\<close>.\<close>

definition read_ncu_report :: "ncu_env \<Rightarrow> string list \<Rightarrow> py_error + ncu_results" where
  "read_ncu_report env required_metrics =
     (if \<not> report_exists env
      then Inl (AssertionError (''The NCU report at '' @ report_path env @ '' does not exist.''))
      else and_then (import_ncu_python_path env) (\<lambda>_.
        case report_ranges env of
          [] \<Rightarrow> Inl (AssertionError
                 (''No profile data found in the NCU report at '' @ report_path env))
        | default_range # _ \<Rightarrow>
            if \<not> length default_range > 0
            then Inl (AssertionError
                   (''No profile data found in the default range of the NCU report at ''
                      @ report_path env))
            else
              and_then (kernel_loop required_metrics default_range initial_state) (\<lambda>st.
              and_then (arithmetic_intensity_block required_metrics
                          (memory_traffic_block required_metrics st)) (\<lambda>st.
              and_then (ncu_tflops_block required_metrics st) (\<lambda>st.
              Inr (ncu_results.truncate st))))))"

section \<open>nsys_analyzer.py\<close>

subsection \<open>Values of the result dictionary\<close>

text \<open>
  The result of \<open>read_nsys_report\<close> maps a metric name to a number or to a list of
  strings. Python tells an \<^verbatim>\<open>int\<close> from a \<^verbatim>\<open>float\<close>, and the function starts its two
  totals at the \<^verbatim>\<open>int\<close> 0, so numbers keep their Python type here.
\<close>

datatype pynum = PyInt int | PyFloat real

datatype nsys_value = Number pynum | StrList "string list"

fun real_of_pynum :: "pynum \<Rightarrow> real" where
  "real_of_pynum (PyInt i) = real_of_int i"
| "real_of_pynum (PyFloat x) = x"

text \<open>\<^verbatim>\<open>a - b\<close>: an \<^verbatim>\<open>int\<close> only when both operands are.\<close>

fun py_sub :: "pynum \<Rightarrow> pynum \<Rightarrow> pynum" where
  "py_sub (PyInt a) (PyInt b) = PyInt (a - b)"
| "py_sub a b = PyFloat (real_of_pynum a - real_of_pynum b)"

text \<open>\<^verbatim>\<open>sum(xs)\<close> of a list of floats starts from the \<^verbatim>\<open>int\<close> 0.\<close>

definition py_sum :: "real list \<Rightarrow> pynum" where
  "py_sum xs = (if xs = [] then PyInt 0 else PyFloat (sum_list xs))"

subsection \<open>The table and the environment\<close>

definition nsys_metrics_to_reports :: "(string \<times> string list) list" where
  "nsys_metrics_to_reports =
    [(''nsys_gpu_kernel_sum'', [''nvtx_kern_sum'', ''nvtx_sum'']),
     (''nsys_launch_overhead'', [''nvtx_kern_sum'', ''nvtx_sum'']),
     (''nsys_kernel_names'', [''nvtx_kern_sum'']),
     (''nsys_kernel_durations'', [''nvtx_kern_sum'']),
     (''nsys_nvtx_range_duration'', [''nvtx_sum'']),
     (''nsys_num_of_kernels'', [''nvtx_kern_sum''])]"

definition get_nsys_metrics :: "string list \<Rightarrow> string list" where
  "get_nsys_metrics metrics =
     filter (\<lambda>metric_name. metric_name \<in> set metrics) (map fst nsys_metrics_to_reports)"

text \<open>A row of \<^verbatim>\<open>csv.DictReader\<close>: a dictionary from column name to cell text.\<close>

type_synonym csv_row = "string \<rightharpoonup> string"

text \<open>
  What \<open>read_nsys_report\<close> reads from outside: whether the report file exists, whether
  \<^verbatim>\<open>nsys stats\<close> exits with 0 for the requested report types, and for each report type
  the data rows of its exported CSV file (\<open>None\<close> when the file does not exist after the
  export). Python's \<^verbatim>\<open>float\<close> on a string (\<open>None\<close> is \<^verbatim>\<open>ValueError\<close>) and \<^verbatim>\<open>str\<close> on a
  float are parameters as well.
\<close>

record nsys_env =
  nsys_report_path :: string
  nsys_report_exists :: bool
  nsys_stats_succeeds :: "string list \<Rightarrow> bool"
  csv_file :: "string \<Rightarrow> csv_row list option"
  py_float :: "string \<Rightarrow> real option"
  py_str :: "real \<Rightarrow> string"

subsection \<open>\<open>read_nsys_report\<close>\<close>

text \<open>
  Lines 37 to 41. \<^verbatim>\<open>list(set(reports_required))\<close> keeps one copy of each report type;
  the order Python gives them is not fixed, and nothing below depends on it but the
  command line and which missing file is reported first.
\<close>

definition reports_required_of :: "string list \<Rightarrow> string list" where
  "reports_required_of required_metrics =
     remdups (concat (map (\<lambda>metric.
        case map_of nsys_metrics_to_reports metric of
          None \<Rightarrow> []
        | Some reports \<Rightarrow> reports) required_metrics))"

text \<open>Lines 58 to 66: one CSV file per required report type.\<close>

fun read_csvs ::
  "nsys_env \<Rightarrow> string list \<Rightarrow> (string \<rightharpoonup> csv_row list) \<Rightarrow> py_error + (string \<rightharpoonup> csv_row list)"
where
  "read_csvs env [] csv_contents = Inr csv_contents"
| "read_csvs env (report # rest) csv_contents =
     (case csv_file env report of
        None \<Rightarrow> Inl (RuntimeError ''Expected CSV report not found'')
      | Some rows \<Rightarrow> read_csvs env rest (csv_contents(report \<mapsto> rows)))"

text \<open>\<^verbatim>\<open>float(row["Total Time (ns)"]) / 1_000_000\<close>\<close>

definition total_time_ms :: "nsys_env \<Rightarrow> csv_row \<Rightarrow> py_error + real" where
  "total_time_ms env row =
     (case row ''Total Time (ns)'' of
        None \<Rightarrow> Inl (KeyError ''Total Time (ns)'')
      | Some cell \<Rightarrow>
          (case py_float env cell of
             None \<Rightarrow> Inl ValueError
           | Some ns \<Rightarrow> Inr (ns / 1000000)))"

text \<open>Lines 73 to 76: the loop over the rows of the per-kernel summary.\<close>

fun kern_sum_rows ::
  "nsys_env \<Rightarrow> csv_row list \<Rightarrow> real list \<times> string list \<Rightarrow> py_error + (real list \<times> string list)"
where
  "kern_sum_rows env [] acc = Inr acc"
| "kern_sum_rows env (row # rest) (kernel_duration, kernel_names) =
     and_then (total_time_ms env row) (\<lambda>ms.
       case row ''Kernel Name'' of
         None \<Rightarrow> Inl (KeyError ''Kernel Name'')
       | Some name \<Rightarrow> kern_sum_rows env rest (kernel_duration @ [ms], kernel_names @ [name]))"

text \<open>Lines 86 to 95.\<close>

definition metrics_map_of ::
  "nsys_env \<Rightarrow> real list \<Rightarrow> string list \<Rightarrow> pynum \<Rightarrow> pynum \<Rightarrow> (string \<times> nsys_value) list"
where
  "metrics_map_of env kernel_duration kernel_names sum_kernel_duration nvtx_range_duration =
    [(''nsys_kernel_durations'', StrList (map (py_str env) kernel_duration)),
     (''nsys_kernel_names'', StrList kernel_names),
     (''nsys_gpu_kernel_sum'', Number sum_kernel_duration),
     (''nsys_nvtx_range_duration'', Number nvtx_range_duration),
     (''nsys_launch_overhead'', Number (py_sub nvtx_range_duration sum_kernel_duration)),
     (''nsys_num_of_kernels'', Number (PyInt (int (length kernel_names))))]"

text \<open>
  The whole function. The result is the dictionary comprehension of lines 103 to 109:
  the entries of \<open>metrics_map\<close> whose key was requested.
\<close>

definition read_nsys_report :: "nsys_env \<Rightarrow> string list \<Rightarrow> py_error + (string \<rightharpoonup> nsys_value)" where
  "read_nsys_report env required_metrics =
     (if \<not> nsys_report_exists env
      then Inl (AssertionError
             (''The nsys report at '' @ nsys_report_path env @ '' does not exist.''))
      else
        let reports_required = reports_required_of required_metrics in
        if reports_required = [] then Inl (AssertionError ''No nsys reports required'')
        else if \<not> nsys_stats_succeeds env reports_required then Inl CalledProcessError
        else
          and_then (read_csvs env reports_required Map.empty) (\<lambda>csv_contents.
          and_then
            (case csv_contents ''nvtx_kern_sum'' of
               None \<Rightarrow> Inr ([], [], PyInt 0)
             | Some rows \<Rightarrow>
                 and_then (kern_sum_rows env rows ([], [])) (\<lambda>(kernel_duration, kernel_names).
                   Inr (kernel_duration, kernel_names, py_sum kernel_duration)))
            (\<lambda>(kernel_duration, kernel_names, sum_kernel_duration).
          and_then
            (case csv_contents ''nvtx_sum'' of
               None \<Rightarrow> Inr (PyInt 0)
             | Some rows \<Rightarrow>
                 if length rows \<noteq> 1 then Inl (AssertionError [])
                 else and_then (total_time_ms env (rows ! 0)) (\<lambda>ms. Inr (PyFloat ms)))
            (\<lambda>nvtx_range_duration.
          let metrics_map = metrics_map_of env kernel_duration kernel_names
                              sum_kernel_duration nvtx_range_duration in
          if set (map fst metrics_map) \<noteq> set (map fst nsys_metrics_to_reports)
          then Inl (AssertionError ''Mismatch between metrics_map keys and nsys_metrics_to_reports keys.'')
          else Inr (map_of metrics_map |` set required_metrics)))))"

section \<open>Closed forms and examples\<close>

subsection \<open>Per-kernel quantities\<close>

text \<open>
  The counters of a kernel that the analyzer reads, by what they measure. The FLOPS
  values are stated the way the specification words them: adds plus multiplies plus
  twice the fused multiply-adds per cycle, times the SM clock frequency.
\<close>

definition duration_of :: "kernel \<Rightarrow> real" where
  "duration_of k = k ''gpu__time_duration.sum''"

definition dram_bytes_of :: "kernel \<Rightarrow> real" where
  "dram_bytes_of k = k ''dram__bytes.sum''"

definition dram_bandwidth_of :: "kernel \<Rightarrow> real" where
  "dram_bandwidth_of k = k ''dram__bytes.sum.per_second''"

definition dram_read_of :: "kernel \<Rightarrow> real" where
  "dram_read_of k = k ''dram__bytes_read.sum''"

definition dram_write_of :: "kernel \<Rightarrow> real" where
  "dram_write_of k = k ''dram__bytes_write.sum''"

definition fp32_flops_of :: "kernel \<Rightarrow> real" where
  "fp32_flops_of k =
     (k ''smsp__sass_thread_inst_executed_op_fadd_pred_on.sum.per_cycle_elapsed''
      + k ''smsp__sass_thread_inst_executed_op_fmul_pred_on.sum.per_cycle_elapsed''
      + 2 * k ''smsp__sass_thread_inst_executed_op_ffma_pred_on.sum.per_cycle_elapsed'')
     * k ''smsp__cycles_elapsed.avg.per_second''"

definition fp64_flops_of :: "kernel \<Rightarrow> real" where
  "fp64_flops_of k =
     (k ''smsp__sass_thread_inst_executed_op_dadd_pred_on.sum.per_cycle_elapsed''
      + k ''smsp__sass_thread_inst_executed_op_dmul_pred_on.sum.per_cycle_elapsed''
      + 2 * k ''smsp__sass_thread_inst_executed_op_dfma_pred_on.sum.per_cycle_elapsed'')
     * k ''smsp__cycles_elapsed.avg.per_second''"

subsection \<open>The loop and the whole function in closed form\<close>

text \<open>Appending \<open>ys\<close> one by one to \<^verbatim>\<open>results[key]\<close>: no key is created when \<open>ys\<close> is empty.\<close>

definition dd_app :: "'a list option \<Rightarrow> 'a list \<Rightarrow> 'a list option" where
  "dd_app x ys = (if ys = [] then x else Some (dd_list x @ ys))"

definition loop_effect :: "string list \<Rightarrow> kernel list \<Rightarrow> ncu_state \<Rightarrow> ncu_state" where
  "loop_effect req ks st =
     st\<lparr>durations := dd_app (durations st)
           (if ''arithmetic_intensity'' \<in> set req \<or> ''ncu_tflops'' \<in> set req
            then map duration_of ks else []),
        memory_traffic_raw := dd_app (memory_traffic_raw st)
           (if ''memory_traffic'' \<in> set req
            then map (\<lambda>k. (dram_read_of k, dram_write_of k)) ks else []),
        arithmetic_intensity_raw := dd_app (arithmetic_intensity_raw st)
           (if ''arithmetic_intensity'' \<in> set req
            then map (\<lambda>k. (fp32_flops_of k / dram_bandwidth_of k,
                            fp64_flops_of k / dram_bandwidth_of k)) ks else []),
        ncu_tflops_raw := dd_app (ncu_tflops_raw st)
           (if ''ncu_tflops'' \<in> set req
            then map (\<lambda>k. (fp32_flops_of k, fp64_flops_of k)) ks else []),
        total_duration := total_duration st +
           (if ''arithmetic_intensity'' \<in> set req \<or> ''ncu_tflops'' \<in> set req
            then sum_list (map duration_of ks) else 0),
        total_dram_bytes := total_dram_bytes st +
           (if ''arithmetic_intensity'' \<in> set req then sum_list (map dram_bytes_of ks) else 0),
        weighted_fp32_ai_sum := weighted_fp32_ai_sum st +
           (if ''arithmetic_intensity'' \<in> set req
            then sum_list (map (\<lambda>k. fp32_flops_of k / dram_bandwidth_of k * dram_bytes_of k) ks)
            else 0),
        weighted_fp64_ai_sum := weighted_fp64_ai_sum st +
           (if ''arithmetic_intensity'' \<in> set req
            then sum_list (map (\<lambda>k. fp64_flops_of k / dram_bandwidth_of k * dram_bytes_of k) ks)
            else 0)\<rparr>"

text \<open>When \<open>read_ncu_report\<close> divides by zero on the kernels \<open>ks\<close> of the default range.\<close>

definition ncu_failure :: "string list \<Rightarrow> kernel list \<Rightarrow> bool" where
  "ncu_failure req ks =
     ((''arithmetic_intensity'' \<in> set req \<and>
        ((\<exists>k \<in> set ks. dram_bandwidth_of k = 0) \<or> sum_list (map dram_bytes_of ks) = 0))
      \<or> (''ncu_tflops'' \<in> set req \<and> sum_list (map duration_of ks) = 0))"

text \<open>What \<open>read_ncu_report\<close> returns on the kernels \<open>ks\<close> when it returns.\<close>

definition ncu_result_of :: "string list \<Rightarrow> kernel list \<Rightarrow> ncu_results" where
  "ncu_result_of req ks =
     (let A = ''arithmetic_intensity'' \<in> set req;
          T = ''ncu_tflops'' \<in> set req;
          M = ''memory_traffic'' \<in> set req;
          reads = sum_list (map dram_read_of ks);
          writes = sum_list (map dram_write_of ks);
          bytes = sum_list (map dram_bytes_of ks);
          w32 = sum_list (map (\<lambda>k. fp32_flops_of k / dram_bandwidth_of k * dram_bytes_of k) ks) / bytes;
          w64 = sum_list (map (\<lambda>k. fp64_flops_of k / dram_bandwidth_of k * dram_bytes_of k) ks) / bytes;
          dur = sum_list (map duration_of ks);
          t32 = sum_list (map (\<lambda>k. fp32_flops_of k * duration_of k) ks) / 10 ^ 12 / dur;
          t64 = sum_list (map (\<lambda>k. fp64_flops_of k * duration_of k) ks) / 10 ^ 12 / dur
      in \<lparr>durations = (if A \<or> T then Some (map duration_of ks) else None),
          memory_traffic_raw =
            (if M then Some (map (\<lambda>k. (dram_read_of k, dram_write_of k)) ks) else None),
          arithmetic_intensity_raw =
            (if A then Some (map (\<lambda>k. (fp32_flops_of k / dram_bandwidth_of k,
                                         fp64_flops_of k / dram_bandwidth_of k)) ks) else None),
          ncu_tflops_raw =
            (if T then Some (map (\<lambda>k. (fp32_flops_of k, fp64_flops_of k)) ks) else None),
          memory_traffic_read_sum = (if M then Some reads else None),
          memory_traffic_write_sum = (if M then Some writes else None),
          memory_traffic = (if M then Some (reads, writes) else None),
          weighted_fp32_arithmetic_intensity = (if A then Some w32 else None),
          weighted_fp64_arithmetic_intensity = (if A then Some w64 else None),
          arithmetic_intensity = (if A then Some (w32, w64) else None),
          ncu_tflops = (if T then Some (t32, t64) else None)\<rparr>)"

subsection \<open>Example reports\<close>

text \<open>A kernel given by the counters that are not 0.\<close>

definition counters :: "(string \<times> real) list \<Rightarrow> kernel" where
  "counters table name = (case map_of table name of None \<Rightarrow> 0 | Some v \<Rightarrow> v)"

text \<open>
  Kernel A moves 100 bytes at FP32 intensity 2, kernel B moves 300 bytes at FP32
  intensity 6 (and FP64 intensity 2). The idle kernel computes without DRAM traffic.
\<close>

definition kernel_A :: kernel where
  "kernel_A = counters
     [(''smsp__sass_thread_inst_executed_op_fadd_pred_on.sum.per_cycle_elapsed'', 2),
      (''smsp__cycles_elapsed.avg.per_second'', 1),
      (''dram__bytes.sum'', 100),
      (''dram__bytes_read.sum'', 60),
      (''dram__bytes_write.sum'', 40),
      (''dram__bytes.sum.per_second'', 1),
      (''gpu__time_duration.sum'', 10)]"

definition kernel_B :: kernel where
  "kernel_B = counters
     [(''smsp__sass_thread_inst_executed_op_ffma_pred_on.sum.per_cycle_elapsed'', 3),
      (''smsp__sass_thread_inst_executed_op_dfma_pred_on.sum.per_cycle_elapsed'', 1),
      (''smsp__cycles_elapsed.avg.per_second'', 1),
      (''dram__bytes.sum'', 300),
      (''dram__bytes_read.sum'', 200),
      (''dram__bytes_write.sum'', 100),
      (''dram__bytes.sum.per_second'', 1),
      (''gpu__time_duration.sum'', 30)]"

definition kernel_idle :: kernel where
  "kernel_idle = counters
     [(''smsp__sass_thread_inst_executed_op_fadd_pred_on.sum.per_cycle_elapsed'', 1),
      (''smsp__cycles_elapsed.avg.per_second'', 1),
      (''gpu__time_duration.sum'', 5)]"

text \<open>An installation where the report file and the vendor's module are found.\<close>

definition ncu_env_of :: "kernel list list \<Rightarrow> ncu_env" where
  "ncu_env_of ranges =
     \<lparr>report_path = ''bench.ncu-rep'', report_exists = True,
      which_ncu = Some ''/opt/nsight/ncu'', extras_python_exists = True,
      report_ranges = ranges\<rparr>"


text \<open>
  An nsys export with the given rows in the per-kernel summary and in the range summary.
  \<^verbatim>\<open>float\<close> and \<^verbatim>\<open>str\<close> are given on the cells and durations of the examples.
\<close>

definition kern_row :: "string \<Rightarrow> string \<Rightarrow> csv_row" where
  "kern_row name ns = [''Kernel Name'' \<mapsto> name, ''Total Time (ns)'' \<mapsto> ns]"

definition range_row :: "string \<Rightarrow> csv_row" where
  "range_row ns = [''Range'' \<mapsto> '':tritonbench_range'', ''Total Time (ns)'' \<mapsto> ns]"

definition example_float :: "string \<Rightarrow> real option" where
  "example_float =
     map_of [(''10000000'', 10000000), (''20000000'', 20000000), (''30000000'', 30000000),
             (''100000000'', 100000000)]"

definition example_str :: "real \<Rightarrow> string" where
  "example_str x = (if x = 20 then ''20.0'' else if x = 30 then ''30.0'' else ''?'')"

definition nsys_env_of :: "csv_row list \<Rightarrow> csv_row list \<Rightarrow> nsys_env" where
  "nsys_env_of kern_rows nvtx_rows =
     \<lparr>nsys_report_path = ''bench.nsys-rep'', nsys_report_exists = True,
      nsys_stats_succeeds = (\<lambda>reports. True),
      csv_file = [''nvtx_kern_sum'' \<mapsto> kern_rows, ''nvtx_sum'' \<mapsto> nvtx_rows],
      py_float = example_float, py_str = example_str\<rparr>"

section \<open>Facts about the tables\<close>

lemma and_then_Inr [simp]: "and_then (Inr x) f = f x"
  by (simp add: and_then_def)

lemma and_then_Inl [simp]: "and_then (Inl e) f = Inl e"
  by (simp add: and_then_def)

lemma metric_value_simps:
  "metric_value k ''inst_executed_fadd'' =
     Inr (k ''smsp__sass_thread_inst_executed_op_fadd_pred_on.sum.per_cycle_elapsed'')"
  "metric_value k ''inst_executed_fmul'' =
     Inr (k ''smsp__sass_thread_inst_executed_op_fmul_pred_on.sum.per_cycle_elapsed'')"
  "metric_value k ''inst_executed_ffma'' =
     Inr (k ''smsp__sass_thread_inst_executed_op_ffma_pred_on.sum.per_cycle_elapsed'')"
  "metric_value k ''inst_executed_dadd'' =
     Inr (k ''smsp__sass_thread_inst_executed_op_dadd_pred_on.sum.per_cycle_elapsed'')"
  "metric_value k ''inst_executed_dmul'' =
     Inr (k ''smsp__sass_thread_inst_executed_op_dmul_pred_on.sum.per_cycle_elapsed'')"
  "metric_value k ''inst_executed_dfma'' =
     Inr (k ''smsp__sass_thread_inst_executed_op_dfma_pred_on.sum.per_cycle_elapsed'')"
  "metric_value k ''dram_bytes_write'' = Inr (k ''dram__bytes_write.sum'')"
  "metric_value k ''dram_bytes_read'' = Inr (k ''dram__bytes_read.sum'')"
  "metric_value k ''dram_bytes'' = Inr (k ''dram__bytes.sum'')"
  "metric_value k ''sm_freq'' = Inr (k ''smsp__cycles_elapsed.avg.per_second'')"
  "metric_value k ''dram_bandwidth'' = Inr (k ''dram__bytes.sum.per_second'')"
  "metric_value k ''duration'' = Inr (k ''gpu__time_duration.sum'')"
  by (simp_all add: metric_value_def short_name_def short_ncu_metric_name_def)

section \<open>The NCU analyzer in closed form\<close>

lemma get_flops_eq: "get_flops k = Inr (fp32_flops_of k, fp64_flops_of k)"
  by (simp add: get_flops_def metric_value_simps fp32_flops_of_def fp64_flops_of_def)

lemma get_duration_eq: "get_duration k = Inr (duration_of k)"
  by (simp add: get_duration_def metric_value_simps duration_of_def)

lemma get_mem_traffic_eq: "get_mem_traffic k = Inr (dram_read_of k, dram_write_of k)"
  by (simp add: get_mem_traffic_def metric_value_simps dram_read_of_def dram_write_of_def)

lemma dram_bytes_eq: "metric_value k ''dram_bytes'' = Inr (dram_bytes_of k)"
  by (simp add: metric_value_simps dram_bytes_of_def)

lemma get_arithmetic_intensity_eq:
  "get_arithmetic_intensity k =
     (if dram_bandwidth_of k = 0 then Inl ZeroDivisionError
      else Inr (fp32_flops_of k / dram_bandwidth_of k, fp64_flops_of k / dram_bandwidth_of k))"
  by (simp add: get_arithmetic_intensity_def get_flops_eq metric_value_simps truediv_def
      dram_bandwidth_of_def)

lemma loop_body_eq:
  "loop_body req k st =
    (if ''arithmetic_intensity'' \<in> set req \<and> dram_bandwidth_of k = 0 then Inl ZeroDivisionError
     else Inr (st
       \<lparr>durations := (if ''arithmetic_intensity'' \<in> set req \<or> ''ncu_tflops'' \<in> set req
                      then Some (dd_list (durations st) @ [duration_of k]) else durations st),
        memory_traffic_raw := (if ''memory_traffic'' \<in> set req
                      then Some (dd_list (memory_traffic_raw st) @ [(dram_read_of k, dram_write_of k)])
                      else memory_traffic_raw st),
        arithmetic_intensity_raw := (if ''arithmetic_intensity'' \<in> set req
                      then Some (dd_list (arithmetic_intensity_raw st) @
                         [(fp32_flops_of k / dram_bandwidth_of k, fp64_flops_of k / dram_bandwidth_of k)])
                      else arithmetic_intensity_raw st),
        ncu_tflops_raw := (if ''ncu_tflops'' \<in> set req
                      then Some (dd_list (ncu_tflops_raw st) @ [(fp32_flops_of k, fp64_flops_of k)])
                      else ncu_tflops_raw st),
        total_duration := total_duration st +
            (if ''arithmetic_intensity'' \<in> set req \<or> ''ncu_tflops'' \<in> set req then duration_of k else 0),
        total_dram_bytes := total_dram_bytes st +
            (if ''arithmetic_intensity'' \<in> set req then dram_bytes_of k else 0),
        weighted_fp32_ai_sum := weighted_fp32_ai_sum st +
            (if ''arithmetic_intensity'' \<in> set req
             then fp32_flops_of k / dram_bandwidth_of k * dram_bytes_of k else 0),
        weighted_fp64_ai_sum := weighted_fp64_ai_sum st +
            (if ''arithmetic_intensity'' \<in> set req
             then fp64_flops_of k / dram_bandwidth_of k * dram_bytes_of k else 0)\<rparr>))"
  by (simp add: loop_body_def get_duration_eq get_mem_traffic_eq dram_bytes_eq
      get_arithmetic_intensity_eq get_flops_eq)

lemma dd_app_Nil [simp]: "dd_app x [] = x"
  by (simp add: dd_app_def)

lemma dd_app_Cons: "dd_app (Some (dd_list x @ [y])) ys = dd_app x (y # ys)"
  by (simp add: dd_app_def)

lemma kernel_loop_eq:
  "kernel_loop req ks st =
     (if ''arithmetic_intensity'' \<in> set req \<and> (\<exists>k \<in> set ks. dram_bandwidth_of k = 0)
      then Inl ZeroDivisionError
      else Inr (loop_effect req ks st))"
proof (induction ks arbitrary: st)
  case Nil
  show ?case by (simp add: loop_effect_def)
next
  case (Cons k ks)
  show ?case
    by (cases "''arithmetic_intensity'' \<in> set req"; cases "''ncu_tflops'' \<in> set req";
        cases "''memory_traffic'' \<in> set req")
       (simp_all add: Cons.IH loop_body_eq loop_effect_def dd_app_def add.assoc)
qed

lemma zip_flops_durations:
  "sum_list (map (\<lambda>(flop, dur). f flop * dur) (zip (map g ks) (map d ks)))
     = sum_list (map (\<lambda>k. f (g k) * d k) ks)"
  by (induction ks) simp_all

lemma read_ncu_report_eq:
  assumes "report_exists env" and "import_ncu_python_path env = Inr ()"
    and "report_ranges env = ks # rs" and "ks \<noteq> []"
  shows "read_ncu_report env req =
           (if ncu_failure req ks then Inl ZeroDivisionError else Inr (ncu_result_of req ks))"
  using assms
  by (cases "''arithmetic_intensity'' \<in> set req"; cases "''ncu_tflops'' \<in> set req";
      cases "''memory_traffic'' \<in> set req")
     (simp_all add: read_ncu_report_def kernel_loop_eq loop_effect_def initial_state_def
        memory_traffic_block_def arithmetic_intensity_block_def ncu_tflops_block_def
        truediv_def ncu_failure_def ncu_result_of_def dd_app_def Let_def
        ncu_results.truncate_def zip_flops_durations comp_def)

lemma kernel_A_simps:
  "duration_of kernel_A = 10" "dram_bytes_of kernel_A = 100" "dram_bandwidth_of kernel_A = 1"
  "dram_read_of kernel_A = 60" "dram_write_of kernel_A = 40"
  "fp32_flops_of kernel_A = 2" "fp64_flops_of kernel_A = 0"
  by (simp_all add: kernel_A_def counters_def duration_of_def dram_bytes_of_def
      dram_bandwidth_of_def dram_read_of_def dram_write_of_def fp32_flops_of_def fp64_flops_of_def)

lemma kernel_B_simps:
  "duration_of kernel_B = 30" "dram_bytes_of kernel_B = 300" "dram_bandwidth_of kernel_B = 1"
  "dram_read_of kernel_B = 200" "dram_write_of kernel_B = 100"
  "fp32_flops_of kernel_B = 6" "fp64_flops_of kernel_B = 2"
  by (simp_all add: kernel_B_def counters_def duration_of_def dram_bytes_of_def
      dram_bandwidth_of_def dram_read_of_def dram_write_of_def fp32_flops_of_def fp64_flops_of_def)

lemma kernel_idle_simps:
  "duration_of kernel_idle = 5" "dram_bytes_of kernel_idle = 0" "dram_bandwidth_of kernel_idle = 0"
  "dram_read_of kernel_idle = 0" "dram_write_of kernel_idle = 0"
  "fp32_flops_of kernel_idle = 1" "fp64_flops_of kernel_idle = 0"
  by (simp_all add: kernel_idle_def counters_def duration_of_def dram_bytes_of_def
      dram_bandwidth_of_def dram_read_of_def dram_write_of_def fp32_flops_of_def fp64_flops_of_def)

lemma ncu_env_of_simps:
  "report_exists (ncu_env_of rs)" "import_ncu_python_path (ncu_env_of rs) = Inr ()"
  "report_ranges (ncu_env_of rs) = rs" "report_path (ncu_env_of rs) = ''bench.ncu-rep''"
  by (simp_all add: ncu_env_of_def import_ncu_python_path_def)

lemma read_ncu_report_InrD:
  assumes "read_ncu_report env req = Inr res" and "report_ranges env = ks # rs"
  shows "report_exists env" and "import_ncu_python_path env = Inr ()" and "ks \<noteq> []"
    and "\<not> ncu_failure req ks" and "res = ncu_result_of req ks"
proof -
  show 1: "report_exists env"
    using assms(1) by (auto simp: read_ncu_report_def split: if_splits)
  show 2: "import_ncu_python_path env = Inr ()"
    using assms(1) 1 by (cases "import_ncu_python_path env") (auto simp: read_ncu_report_def)
  show 3: "ks \<noteq> []"
    using assms 1 2 by (auto simp: read_ncu_report_def)
  show "\<not> ncu_failure req ks" and "res = ncu_result_of req ks"
    using read_ncu_report_eq [OF 1 2 assms(2) 3, of req] assms(1)
    by (auto split: if_splits)
qed

lemma sum_list_map_mset:
  fixes f :: "'a \<Rightarrow> real"
  assumes "mset xs = mset ys"
  shows "sum_list (map f xs) = sum_list (map f ys)"
proof -
  have "sum_list (map f xs) = sum_mset (image_mset f (mset xs))"
    by (metis mset_map sum_mset_sum_list)
  also have "\<dots> = sum_mset (image_mset f (mset ys))"
    by (simp add: assms)
  also have "\<dots> = sum_list (map f ys)"
    by (metis mset_map sum_mset_sum_list)
  finally show ?thesis .
qed

lemma ncu_failure_mset:
  assumes "mset ks' = mset ks"
  shows "ncu_failure req ks' = ncu_failure req ks"
  using sum_list_map_mset [OF assms] mset_eq_setD [OF assms]
  by (simp add: ncu_failure_def)

lemma import_ncu_python_path_ranges [simp]:
  "import_ncu_python_path (env\<lparr>report_ranges := r\<rparr>) = import_ncu_python_path env"
  by (simp add: import_ncu_python_path_def)

lemma memory_traffic_result:
  "''memory_traffic'' \<in> set req \<Longrightarrow>
     memory_traffic (ncu_result_of req ks) =
       Some (sum_list (map dram_read_of ks), sum_list (map dram_write_of ks))"
  by (simp add: ncu_result_of_def Let_def)

lemma read_ncu_report_errors:
  assumes "report_ranges env = (k # ks) # rs"
  shows "read_ncu_report env req = Inl (AssertionError (''The NCU report at '' @ report_path env @ '' does not exist.''))
       \<or> (\<exists>m. read_ncu_report env req = Inl (FileNotFoundError m))
       \<or> read_ncu_report env req = Inl ZeroDivisionError
       \<or> (\<exists>res. read_ncu_report env req = Inr res)"
proof (cases "report_exists env")
  case False
  then show ?thesis by (simp add: read_ncu_report_def)
next
  case True
  show ?thesis
  proof (cases "import_ncu_python_path env")
    case (Inl e)
    then have "\<exists>m. e = FileNotFoundError m"
      by (auto simp: import_ncu_python_path_def split: option.splits if_splits)
    with Inl True show ?thesis by (auto simp: read_ncu_report_def)
  next
    case (Inr u)
    then have "import_ncu_python_path env = Inr ()" by simp
    from read_ncu_report_eq [OF True this assms, of req] show ?thesis by auto
  qed
qed







lemma read_ncu_report_no_metrics:
  assumes "report_exists env" and "import_ncu_python_path env = Inr ()"
    and "report_ranges env = ks # rs" and "ks \<noteq> []"
  shows "\<exists>res. read_ncu_report env [] = Inr res \<and> result_keys res = []"
  using read_ncu_report_eq [OF assms, of "[]"]
  by (simp add: ncu_failure_def ncu_result_of_def result_keys_def)

section \<open>Claims about the NCU analyzer\<close>

text \<open>
  C1, as the code has it. For every NCU report that is found and loaded and whose default
  range contains at least one kernel action, when \<open>arithmetic_intensity\<close> is among the
  required metrics, every kernel's DRAM bandwidth is not 0 and the DRAM bytes of the
  kernels do not sum to 0 (and, when \<open>ncu_tflops\<close> is required too, the durations do not
  sum to 0), \<open>read_ncu_report\<close> returns under the key \<open>arithmetic_intensity\<close> the pair of
  byte-weighted averages: the sum of per-kernel intensity times per-kernel DRAM bytes,
  over the sum of per-kernel DRAM bytes, for FP32 and for FP64, where the intensity of a
  kernel is its FLOPS divided by its DRAM bandwidth.
\<close>

theorem arithmetic_intensity_weighted:
  assumes "report_exists env" and "import_ncu_python_path env = Inr ()"
    and "report_ranges env = ks # rs" and "ks \<noteq> []"
    and "''arithmetic_intensity'' \<in> set req"
    and "\<forall>k \<in> set ks. dram_bandwidth_of k \<noteq> 0"
    and "sum_list (map dram_bytes_of ks) \<noteq> 0"
    and "''ncu_tflops'' \<in> set req \<longrightarrow> sum_list (map duration_of ks) \<noteq> 0"
  shows "\<exists>res. read_ncu_report env req = Inr res \<and>
           arithmetic_intensity res = Some
             (sum_list (map (\<lambda>k. fp32_flops_of k / dram_bandwidth_of k * dram_bytes_of k) ks)
                / sum_list (map dram_bytes_of ks),
              sum_list (map (\<lambda>k. fp64_flops_of k / dram_bandwidth_of k * dram_bytes_of k) ks)
                / sum_list (map dram_bytes_of ks))"
proof -
  have "\<not> ncu_failure req ks"
    using assms(5-8) by (auto simp: ncu_failure_def)
  then have "read_ncu_report env req = Inr (ncu_result_of req ks)"
    using read_ncu_report_eq [OF assms(1-4)] by simp
  moreover have "arithmetic_intensity (ncu_result_of req ks) = Some
             (sum_list (map (\<lambda>k. fp32_flops_of k / dram_bandwidth_of k * dram_bytes_of k) ks)
                / sum_list (map dram_bytes_of ks),
              sum_list (map (\<lambda>k. fp64_flops_of k / dram_bandwidth_of k * dram_bytes_of k) ks)
                / sum_list (map dram_bytes_of ks))"
    using assms(5) by (simp add: ncu_result_of_def Let_def)
  ultimately show ?thesis by blast
qed

theorem arithmetic_intensity_weighted_witness:
  "\<exists>res. read_ncu_report (ncu_env_of [[kernel_A, kernel_B]]) [''arithmetic_intensity''] = Inr res
     \<and> arithmetic_intensity res = Some (5, 3 / 2)"
  using arithmetic_intensity_weighted
          [of "ncu_env_of [[kernel_A, kernel_B]]" "[kernel_A, kernel_B]" "[]"
              "[''arithmetic_intensity'']"]
  by (simp add: ncu_env_of_simps kernel_A_simps kernel_B_simps)

text \<open>
  C1 as stated, for every report with at least one kernel action, fails: on a default
  range with one kernel that moved no DRAM bytes the call raises
  \<^verbatim>\<open>ZeroDivisionError\<close> and returns nothing.
\<close>

theorem arithmetic_intensity_zero_traffic:
  "report_ranges (ncu_env_of [[kernel_idle]]) = [[kernel_idle]] \<and>
   read_ncu_report (ncu_env_of [[kernel_idle]]) [''arithmetic_intensity''] = Inl ZeroDivisionError"
  using read_ncu_report_eq [of "ncu_env_of [[kernel_idle]]" "[kernel_idle]" "[]"
          "[''arithmetic_intensity'']"]
  by (simp add: ncu_env_of_simps kernel_idle_simps ncu_failure_def)

text \<open>
  C2, as the code has it. For every NCU report that is found and loaded and whose default
  range contains at least one kernel action, when \<open>ncu_tflops\<close> is among the required
  metrics and the durations of the kernels do not sum to 0 (and, when
  \<open>arithmetic_intensity\<close> is required too, no kernel has DRAM bandwidth 0 and the DRAM
  bytes do not sum to 0), \<open>read_ncu_report\<close> returns under the key \<open>ncu_tflops\<close> the pair
  of the sum of per-kernel FP32 FLOPS times per-kernel duration, divided by \<open>10^12\<close> and
  then by the sum of the durations, and the same for FP64.
\<close>

theorem ncu_tflops_weighted:
  assumes "report_exists env" and "import_ncu_python_path env = Inr ()"
    and "report_ranges env = ks # rs" and "ks \<noteq> []"
    and "''ncu_tflops'' \<in> set req"
    and "sum_list (map duration_of ks) \<noteq> 0"
    and "''arithmetic_intensity'' \<in> set req \<longrightarrow>
           (\<forall>k \<in> set ks. dram_bandwidth_of k \<noteq> 0) \<and> sum_list (map dram_bytes_of ks) \<noteq> 0"
  shows "\<exists>res. read_ncu_report env req = Inr res \<and>
           ncu_tflops res = Some
             (sum_list (map (\<lambda>k. fp32_flops_of k * duration_of k) ks) / 10 ^ 12
                / sum_list (map duration_of ks),
              sum_list (map (\<lambda>k. fp64_flops_of k * duration_of k) ks) / 10 ^ 12
                / sum_list (map duration_of ks))"
proof -
  have "\<not> ncu_failure req ks"
    using assms(5-7) by (auto simp: ncu_failure_def)
  then have "read_ncu_report env req = Inr (ncu_result_of req ks)"
    using read_ncu_report_eq [OF assms(1-4)] by simp
  moreover have "ncu_tflops (ncu_result_of req ks) = Some
             (sum_list (map (\<lambda>k. fp32_flops_of k * duration_of k) ks) / 10 ^ 12
                / sum_list (map duration_of ks),
              sum_list (map (\<lambda>k. fp64_flops_of k * duration_of k) ks) / 10 ^ 12
                / sum_list (map duration_of ks))"
    using assms(5) by (simp add: ncu_result_of_def Let_def)
  ultimately show ?thesis by blast
qed

theorem ncu_tflops_weighted_witness:
  "\<exists>res. read_ncu_report (ncu_env_of [[kernel_A, kernel_B]]) [''ncu_tflops''] = Inr res
     \<and> ncu_tflops res = Some (200 / 10 ^ 12 / 40, 60 / 10 ^ 12 / 40)"
  using ncu_tflops_weighted
          [of "ncu_env_of [[kernel_A, kernel_B]]" "[kernel_A, kernel_B]" "[]" "[''ncu_tflops'']"]
  by (simp add: ncu_env_of_simps kernel_A_simps kernel_B_simps)

text \<open>
  C2 as stated fails: with \<open>arithmetic_intensity\<close> requested beside \<open>ncu_tflops\<close>, on a
  kernel of duration 5 that moved no DRAM bytes the call raises \<^verbatim>\<open>ZeroDivisionError\<close>
  and no \<open>ncu_tflops\<close> entry is returned.
\<close>

theorem ncu_tflops_zero_traffic:
  "report_ranges (ncu_env_of [[kernel_idle]]) = [[kernel_idle]] \<and>
   duration_of kernel_idle = 5 \<and>
   read_ncu_report (ncu_env_of [[kernel_idle]]) [''arithmetic_intensity'', ''ncu_tflops'']
     = Inl ZeroDivisionError"
  using read_ncu_report_eq [of "ncu_env_of [[kernel_idle]]" "[kernel_idle]" "[]"
          "[''arithmetic_intensity'', ''ncu_tflops'']"]
  by (simp add: ncu_env_of_simps kernel_idle_simps ncu_failure_def)

text \<open>
  C3. For every kernel record, \<open>get_flops\<close> returns, for FP32 and for FP64, the sum of
  the add-per-cycle count, the multiply-per-cycle count and twice the
  fused-multiply-add-per-cycle count, multiplied by the SM clock frequency: every FMA
  counts as two floating-point operations.
\<close>

theorem get_flops_formula:
  "get_flops k =
     Inr ((k ''smsp__sass_thread_inst_executed_op_fadd_pred_on.sum.per_cycle_elapsed''
           + k ''smsp__sass_thread_inst_executed_op_fmul_pred_on.sum.per_cycle_elapsed''
           + 2 * k ''smsp__sass_thread_inst_executed_op_ffma_pred_on.sum.per_cycle_elapsed'')
          * k ''smsp__cycles_elapsed.avg.per_second'',
          (k ''smsp__sass_thread_inst_executed_op_dadd_pred_on.sum.per_cycle_elapsed''
           + k ''smsp__sass_thread_inst_executed_op_dmul_pred_on.sum.per_cycle_elapsed''
           + 2 * k ''smsp__sass_thread_inst_executed_op_dfma_pred_on.sum.per_cycle_elapsed'')
          * k ''smsp__cycles_elapsed.avg.per_second'')"
  by (simp add: get_flops_def metric_value_simps)

text \<open>
  C5, as the code has it. The code adds the per-kernel byte counters with \<^verbatim>\<open>sum()\<close>,
  left to right in iteration order; on doubles each addition rounds, so the total is
  the sum of the counters, and the same in every order, when the additions are exact.
  They are when every counter is a non-negative integer and the totals stay below
  \<open>2^53\<close>, which the theorem assumes. Under that assumption: for every report that is
  found and loaded and whose default range contains at least one kernel action, when
  \<open>memory_traffic\<close> is among the required metrics and no divisor of a metric requested
  beside it is 0 (for \<open>arithmetic_intensity\<close> the DRAM bandwidth of each kernel and the
  total of the DRAM bytes, for \<open>ncu_tflops\<close> the total duration), \<open>read_ncu_report\<close>
  returns under the key \<open>memory_traffic\<close> the pair of the sum of the per-kernel DRAM
  read bytes and the sum of the per-kernel DRAM write bytes, and on every reordering
  \<open>ks'\<close> of the kernel actions it returns the same value under that key.
\<close>

theorem memory_traffic_sums:
  assumes "report_exists env" and "import_ncu_python_path env = Inr ()"
    and "report_ranges env = ks # rs" and "ks \<noteq> []"
    and "''memory_traffic'' \<in> set req"
    and "''arithmetic_intensity'' \<in> set req \<longrightarrow>
           (\<forall>k \<in> set ks. dram_bandwidth_of k \<noteq> 0) \<and> sum_list (map dram_bytes_of ks) \<noteq> 0"
    and "''ncu_tflops'' \<in> set req \<longrightarrow> sum_list (map duration_of ks) \<noteq> 0"
    and "\<forall>k \<in> set ks. dram_read_of k \<in> \<nat> \<and> dram_write_of k \<in> \<nat>"
    and "sum_list (map dram_read_of ks) < 2 ^ 53"
    and "sum_list (map dram_write_of ks) < 2 ^ 53"
    and "mset ks' = mset ks"
  shows "\<exists>res res'.
           read_ncu_report env req = Inr res \<and>
           memory_traffic res =
             Some (sum_list (map dram_read_of ks), sum_list (map dram_write_of ks)) \<and>
           read_ncu_report (env\<lparr>report_ranges := ks' # rs\<rparr>) req = Inr res' \<and>
           memory_traffic res' = memory_traffic res"
proof -
  let ?env' = "env\<lparr>report_ranges := ks' # rs\<rparr>"
  have ok: "\<not> ncu_failure req ks"
    using assms(6,7) by (auto simp: ncu_failure_def)
  then have ok': "\<not> ncu_failure req ks'"
    by (simp add: ncu_failure_mset [OF assms(11)])
  have ne: "ks' \<noteq> []"
    using assms(4,11) by auto
  have 1: "read_ncu_report env req = Inr (ncu_result_of req ks)"
    using read_ncu_report_eq [OF assms(1-4), of req] ok by simp
  have 2: "read_ncu_report ?env' req = Inr (ncu_result_of req ks')"
    using read_ncu_report_eq [of ?env' ks' rs req] assms(1,2) ne ok' by simp
  have 3: "memory_traffic (ncu_result_of req ks') = memory_traffic (ncu_result_of req ks)"
    using assms(5) sum_list_map_mset [OF assms(11)] by (simp add: memory_traffic_result)
  from 1 2 3 show ?thesis
    using assms(5) by (simp add: memory_traffic_result)
qed

theorem memory_traffic_sums_witness:
  "\<exists>res res'.
     read_ncu_report (ncu_env_of [[kernel_A, kernel_B]])
       [''memory_traffic'', ''arithmetic_intensity'', ''ncu_tflops''] = Inr res \<and>
     memory_traffic res = Some (260, 140) \<and>
     read_ncu_report (ncu_env_of [[kernel_B, kernel_A]])
       [''memory_traffic'', ''arithmetic_intensity'', ''ncu_tflops''] = Inr res' \<and>
     memory_traffic res' = Some (260, 140)"
proof -
  let ?env = "ncu_env_of [[kernel_A, kernel_B]]"
  have swap: "?env\<lparr>report_ranges := [kernel_B, kernel_A] # []\<rparr> = ncu_env_of [[kernel_B, kernel_A]]"
    by (simp add: ncu_env_of_def)
  have perm: "mset [kernel_B, kernel_A] = mset [kernel_A, kernel_B]"
    by simp
  have "\<exists>res res'.
     read_ncu_report ?env [''memory_traffic'', ''arithmetic_intensity'', ''ncu_tflops''] = Inr res \<and>
     memory_traffic res =
       Some (sum_list (map dram_read_of [kernel_A, kernel_B]),
             sum_list (map dram_write_of [kernel_A, kernel_B])) \<and>
     read_ncu_report (?env\<lparr>report_ranges := [kernel_B, kernel_A] # []\<rparr>)
       [''memory_traffic'', ''arithmetic_intensity'', ''ncu_tflops''] = Inr res' \<and>
     memory_traffic res' = memory_traffic res"
    by (rule memory_traffic_sums [OF _ _ _ _ _ _ _ _ _ _ perm])
       (simp_all add: ncu_env_of_simps kernel_A_simps kernel_B_simps)
  then obtain res res' where
    "read_ncu_report ?env [''memory_traffic'', ''arithmetic_intensity'', ''ncu_tflops''] = Inr res"
    "memory_traffic res =
       Some (sum_list (map dram_read_of [kernel_A, kernel_B]),
             sum_list (map dram_write_of [kernel_A, kernel_B]))"
    "read_ncu_report (ncu_env_of [[kernel_B, kernel_A]])
       [''memory_traffic'', ''arithmetic_intensity'', ''ncu_tflops''] = Inr res'"
    "memory_traffic res' = memory_traffic res"
    unfolding swap by (elim exE conjE)
  then show ?thesis
    by (intro exI [of _ res] exI [of _ res']) (simp add: kernel_A_simps kernel_B_simps)
qed

text \<open>
  C5 as stated, for every report, fails: with \<open>arithmetic_intensity\<close> requested as well,
  a kernel without DRAM traffic makes the call raise before anything is returned, and on
  a default range without kernel actions the call raises \<^verbatim>\<open>AssertionError\<close>.
\<close>

theorem memory_traffic_not_returned:
  "read_ncu_report (ncu_env_of [[kernel_idle]]) [''memory_traffic'', ''arithmetic_intensity'']
     = Inl ZeroDivisionError \<and>
   read_ncu_report (ncu_env_of [[]]) [''memory_traffic'']
     = Inl (AssertionError
         ''No profile data found in the default range of the NCU report at bench.ncu-rep'')"
  using read_ncu_report_eq [of "ncu_env_of [[kernel_idle]]" "[kernel_idle]" "[]"
          "[''memory_traffic'', ''arithmetic_intensity'']"]
  by (simp add: ncu_env_of_simps kernel_idle_simps ncu_failure_def read_ncu_report_def)

text \<open>
  C7. Once the report file and the vendor's module are found, \<open>read_ncu_report\<close> raises
  \<^verbatim>\<open>AssertionError\<close> when the loaded report has no profiling range, and when its
  default (first) range has no kernel action; in both cases, whatever else holds, the
  call raises and returns nothing. Conversely, with at least one range and at least one
  action in the default range neither of these two assertions is what the call raises.
\<close>

theorem empty_report_is_fatal:
  "(report_exists env \<and> import_ncu_python_path env = Inr () \<longrightarrow>
      (report_ranges env = [] \<longrightarrow>
         read_ncu_report env req =
           Inl (AssertionError (''No profile data found in the NCU report at '' @ report_path env))) \<and>
      (\<forall>rs. report_ranges env = [] # rs \<longrightarrow>
         read_ncu_report env req =
           Inl (AssertionError
             (''No profile data found in the default range of the NCU report at ''
                @ report_path env)))) \<and>
   (report_ranges env = [] \<or> (\<exists>rs. report_ranges env = [] # rs) \<longrightarrow>
      (\<exists>e. read_ncu_report env req = Inl e)) \<and>
   (\<forall>k ks rs. report_ranges env = (k # ks) # rs \<longrightarrow>
      read_ncu_report env req \<noteq>
        Inl (AssertionError (''No profile data found in the NCU report at '' @ report_path env)) \<and>
      read_ncu_report env req \<noteq>
        Inl (AssertionError
          (''No profile data found in the default range of the NCU report at ''
             @ report_path env)))"
proof (intro conjI impI allI)
  assume "report_ranges env = [] \<or> (\<exists>rs. report_ranges env = [] # rs)"
  then show "\<exists>e. read_ncu_report env req = Inl e"
    by (cases "import_ncu_python_path env") (auto simp: read_ncu_report_def)
next
  fix k ks rs
  assume "report_ranges env = (k # ks) # rs"
  note E = read_ncu_report_errors [OF this, of req]
  from E show "read_ncu_report env req \<noteq>
        Inl (AssertionError (''No profile data found in the NCU report at '' @ report_path env))"
    by auto
  from E show "read_ncu_report env req \<noteq>
        Inl (AssertionError
          (''No profile data found in the default range of the NCU report at ''
             @ report_path env))"
    by auto
qed (simp_all add: read_ncu_report_def)

theorem empty_report_is_fatal_witness:
  "read_ncu_report (ncu_env_of []) [''memory_traffic''] =
     Inl (AssertionError ''No profile data found in the NCU report at bench.ncu-rep'') \<and>
   read_ncu_report (ncu_env_of [[], [kernel_A]]) [''memory_traffic''] =
     Inl (AssertionError
       ''No profile data found in the default range of the NCU report at bench.ncu-rep'') \<and>
   read_ncu_report (ncu_env_of [[kernel_A]]) [''memory_traffic''] \<noteq>
     Inl (AssertionError ''No profile data found in the NCU report at bench.ncu-rep'') \<and>
   read_ncu_report (ncu_env_of [[kernel_A]]) [''memory_traffic''] \<noteq>
     Inl (AssertionError
       ''No profile data found in the default range of the NCU report at bench.ncu-rep'')"
  using empty_report_is_fatal [of "ncu_env_of []" "[''memory_traffic'']"]
    empty_report_is_fatal [of "ncu_env_of [[], [kernel_A]]" "[''memory_traffic'']"]
    empty_report_is_fatal [of "ncu_env_of [[kernel_A]]" "[''memory_traffic'']"]
  by (simp add: ncu_env_of_simps)

section \<open>The nsys analyzer step by step\<close>

lemma and_then_eq_Inr: "and_then m f = Inr y \<longleftrightarrow> (\<exists>x. m = Inr x \<and> f x = Inr y)"
  by (cases m) simp_all

lemma reports_of_metric:
  "r \<in> set (case map_of nsys_metrics_to_reports m of None \<Rightarrow> [] | Some rs \<Rightarrow> rs)
     \<longleftrightarrow> (\<exists>rs. (m, rs) \<in> set nsys_metrics_to_reports \<and> r \<in> set rs)"
proof -
  have d: "distinct (map fst nsys_metrics_to_reports)"
    by (simp add: nsys_metrics_to_reports_def)
  show ?thesis
  proof (cases "map_of nsys_metrics_to_reports m")
    case None
    then have "\<And>rs. (m, rs) \<notin> set nsys_metrics_to_reports"
      by (metis map_of_SomeD weak_map_of_SomeI option.distinct(1) d map_of_eq_Some_iff)
    with None show ?thesis by simp
  next
    case (Some rs)
    then have "\<And>rs'. (m, rs') \<in> set nsys_metrics_to_reports \<longleftrightarrow> rs' = rs"
      using d by (metis map_of_eq_Some_iff option.inject)
    with Some show ?thesis by simp
  qed
qed

lemma reports_required_iff:
  "r \<in> set (reports_required_of req) \<longleftrightarrow>
     (\<exists>m \<in> set req. \<exists>rs. (m, rs) \<in> set nsys_metrics_to_reports \<and> r \<in> set rs)"
proof -
  have 1: "set (reports_required_of req) =
             (\<Union>m \<in> set req. set (case map_of nsys_metrics_to_reports m of
                                      None \<Rightarrow> [] | Some rs \<Rightarrow> rs))"
    by (simp add: reports_required_of_def)
  show ?thesis
    unfolding 1 UN_iff reports_of_metric ..
qed

lemma kern_sum_required:
  "''nvtx_kern_sum'' \<in> set (reports_required_of req) \<longleftrightarrow>
     ''nsys_gpu_kernel_sum'' \<in> set req \<or> ''nsys_launch_overhead'' \<in> set req \<or>
     ''nsys_kernel_names'' \<in> set req \<or> ''nsys_kernel_durations'' \<in> set req \<or>
     ''nsys_num_of_kernels'' \<in> set req"
  unfolding reports_required_iff
  by (simp add: nsys_metrics_to_reports_def bex_disj_distrib ex_disj_distrib conj_disj_distribR)

lemma nvtx_sum_required:
  "''nvtx_sum'' \<in> set (reports_required_of req) \<longleftrightarrow>
     ''nsys_gpu_kernel_sum'' \<in> set req \<or> ''nsys_launch_overhead'' \<in> set req \<or>
     ''nsys_nvtx_range_duration'' \<in> set req"
  unfolding reports_required_iff
  by (simp add: nsys_metrics_to_reports_def bex_disj_distrib ex_disj_distrib conj_disj_distribR)

lemma reports_required_subset:
  assumes "r \<in> set (reports_required_of req)"
  shows "r = ''nvtx_kern_sum'' \<or> r = ''nvtx_sum''"
proof -
  from assms obtain m rs where "(m, rs) \<in> set nsys_metrics_to_reports" "r \<in> set rs"
    unfolding reports_required_iff by blast
  then have "set rs \<subseteq> {''nvtx_kern_sum'', ''nvtx_sum''}"
    by (simp add: nsys_metrics_to_reports_def) (elim disjE; simp)
  with \<open>r \<in> set rs\<close> show ?thesis by blast
qed


lemma read_csvs_eq:
  "read_csvs env rs m =
     (if \<forall>r \<in> set rs. csv_file env r \<noteq> None
      then Inr (\<lambda>r. if r \<in> set rs then csv_file env r else m r)
      else Inl (RuntimeError ''Expected CSV report not found''))"
proof (induction rs arbitrary: m)
  case Nil
  show ?case by simp
next
  case (Cons r rs)
  show ?case
  proof (cases "csv_file env r")
    case None
    then show ?thesis by auto
  next
    case (Some rows)
    have step: "read_csvs env (r # rs) m = read_csvs env rs (m(r \<mapsto> rows))"
      using Some by simp
    have eq: "(\<lambda>x. if x \<in> set rs then csv_file env x else (m(r \<mapsto> rows)) x)
        = (\<lambda>x. if x \<in> set (r # rs) then csv_file env x else m x)"
      using Some by (intro ext) simp
    show ?thesis
      unfolding step Cons.IH eq using Some by simp
  qed
qed

lemma kern_sum_rows_Inr:
  assumes "map (total_time_ms env) rows = map Inr ms"
    and "map (\<lambda>row. row ''Kernel Name'') rows = map Some names"
  shows "kern_sum_rows env rows (ds, ns) = Inr (ds @ ms, ns @ names)"
  using assms
proof (induction rows arbitrary: ds ns ms names)
  case Nil
  then show ?case by simp
next
  case (Cons row rows)
  from Cons.prems obtain m ms' n names' where
    ms: "ms = m # ms'" "total_time_ms env row = Inr m" "map (total_time_ms env) rows = map Inr ms'"
    and names: "names = n # names'" "row ''Kernel Name'' = Some n"
      "map (\<lambda>row. row ''Kernel Name'') rows = map Some names'"
    by (cases ms; cases names) auto
  from Cons.IH [OF ms(3) names(3)] ms(1,2) names(1,2) show ?case by simp
qed

lemma kern_sum_rows_InrD:
  assumes "kern_sum_rows env rows (ds, ns) = Inr (ds', ns')"
  shows "\<exists>ms names. ds' = ds @ ms \<and> ns' = ns @ names \<and>
           map (total_time_ms env) rows = map Inr ms \<and>
           map (\<lambda>row. row ''Kernel Name'') rows = map Some names"
  using assms
proof (induction rows arbitrary: ds ns)
  case Nil
  then show ?case by simp
next
  case (Cons row rows)
  from Cons.prems obtain m n where
    m: "total_time_ms env row = Inr m" and n: "row ''Kernel Name'' = Some n"
    and rest: "kern_sum_rows env rows (ds @ [m], ns @ [n]) = Inr (ds', ns')"
    by (auto simp: and_then_eq_Inr split: option.splits)
  from Cons.IH [OF rest] obtain ms names where
    "ds' = (ds @ [m]) @ ms" "ns' = (ns @ [n]) @ names"
    "map (total_time_ms env) rows = map Inr ms"
    "map (\<lambda>row. row ''Kernel Name'') rows = map Some names"
    by blast
  with m n show ?case
    by (intro exI [of _ "m # ms"] exI [of _ "n # names"]) simp
qed

lemma metrics_map_keys:
  "fst ` set (metrics_map_of env kd kn s r) = fst ` set nsys_metrics_to_reports"
  by (simp add: metrics_map_of_def nsys_metrics_to_reports_def insert_commute)

lemma read_nsys_report_unfold:
  assumes "nsys_report_exists env" and "reports_required_of req \<noteq> []"
    and "nsys_stats_succeeds env (reports_required_of req)"
    and "\<forall>r \<in> set (reports_required_of req). csv_file env r \<noteq> None"
  shows "read_nsys_report env req =
          and_then
            (if ''nvtx_kern_sum'' \<in> set (reports_required_of req)
             then case csv_file env ''nvtx_kern_sum'' of
                    None \<Rightarrow> Inr ([], [], PyInt 0)
                  | Some rows \<Rightarrow>
                      and_then (kern_sum_rows env rows ([], [])) (\<lambda>(kernel_duration, kernel_names).
                        Inr (kernel_duration, kernel_names, py_sum kernel_duration))
             else Inr ([], [], PyInt 0))
            (\<lambda>(kernel_duration, kernel_names, sum_kernel_duration).
          and_then
            (if ''nvtx_sum'' \<in> set (reports_required_of req)
             then case csv_file env ''nvtx_sum'' of
                    None \<Rightarrow> Inr (PyInt 0)
                  | Some rows \<Rightarrow>
                      if length rows \<noteq> 1 then Inl (AssertionError [])
                      else and_then (total_time_ms env (rows ! 0)) (\<lambda>ms. Inr (PyFloat ms))
             else Inr (PyInt 0))
            (\<lambda>nvtx_range_duration.
               Inr (map_of (metrics_map_of env kernel_duration kernel_names
                              sum_kernel_duration nvtx_range_duration) |` set req)))"
  using assms
  by (simp add: read_nsys_report_def read_csvs_eq metrics_map_keys Let_def)

lemma read_nsys_report_precheck:
  assumes "read_nsys_report env req = Inr res"
  shows "nsys_report_exists env" and "reports_required_of req \<noteq> []"
    and "nsys_stats_succeeds env (reports_required_of req)"
    and "\<forall>r \<in> set (reports_required_of req). csv_file env r \<noteq> None"
proof -
  show 1: "nsys_report_exists env"
    using assms by (auto simp: read_nsys_report_def split: if_splits)
  show 2: "reports_required_of req \<noteq> []"
    using assms 1 by (auto simp: read_nsys_report_def Let_def split: if_splits)
  show 3: "nsys_stats_succeeds env (reports_required_of req)"
    using assms 1 2 by (auto simp: read_nsys_report_def Let_def split: if_splits)
  show "\<forall>r \<in> set (reports_required_of req). csv_file env r \<noteq> None"
  proof (rule ccontr)
    assume "\<not> (\<forall>r \<in> set (reports_required_of req). csv_file env r \<noteq> None)"
    then have "read_csvs env (reports_required_of req) Map.empty
                 = Inl (RuntimeError ''Expected CSV report not found'')"
      unfolding read_csvs_eq by simp
    with assms 1 2 3 show False
      by (simp add: read_nsys_report_def Let_def)
  qed
qed

lemma total_time_ms_cells:
  assumes "map (\<lambda>row. row ''Total Time (ns)'') rows = map Some cells"
    and "map (py_float env) cells = map Some nss"
  shows "map (total_time_ms env) rows = map Inr (map (\<lambda>ns. ns / 1000000) nss)"
  using assms
proof (induction rows arbitrary: cells nss)
  case Nil
  then show ?case by simp
next
  case (Cons row rows)
  from Cons.prems obtain c cs n ns where
    "cells = c # cs" "nss = n # ns" "row ''Total Time (ns)'' = Some c" "py_float env c = Some n"
    "map (\<lambda>row. row ''Total Time (ns)'') rows = map Some cs" "map (py_float env) cs = map Some ns"
    by (cases cells; cases nss) auto
  with Cons.IH [of cs ns] show ?case
    by (simp add: total_time_ms_def)
qed

lemma real_of_py_sum [simp]: "real_of_pynum (py_sum ms) = sum_list ms"
  by (simp add: py_sum_def)

lemma metrics_map_lookup:
  "map_of (metrics_map_of env kd kn s r) ''nsys_kernel_durations'' = Some (StrList (map (py_str env) kd))"
  "map_of (metrics_map_of env kd kn s r) ''nsys_kernel_names'' = Some (StrList kn)"
  "map_of (metrics_map_of env kd kn s r) ''nsys_gpu_kernel_sum'' = Some (Number s)"
  "map_of (metrics_map_of env kd kn s r) ''nsys_nvtx_range_duration'' = Some (Number r)"
  "map_of (metrics_map_of env kd kn s r) ''nsys_launch_overhead'' = Some (Number (py_sub r s))"
  "map_of (metrics_map_of env kd kn s r) ''nsys_num_of_kernels'' = Some (Number (PyInt (int (length kn))))"
  by (simp_all add: metrics_map_of_def)

lemma read_nsys_report_InrD:
  assumes "read_nsys_report env req = Inr res"
  shows "\<exists>kd kn skd nrd.
           (if ''nvtx_kern_sum'' \<in> set (reports_required_of req)
            then \<exists>rows. csv_file env ''nvtx_kern_sum'' = Some rows \<and>
                   kern_sum_rows env rows ([], []) = Inr (kd, kn) \<and> skd = py_sum kd
            else kd = [] \<and> kn = [] \<and> skd = PyInt 0) \<and>
           (if ''nvtx_sum'' \<in> set (reports_required_of req)
            then \<exists>row ms. csv_file env ''nvtx_sum'' = Some [row] \<and>
                   total_time_ms env row = Inr ms \<and> nrd = PyFloat ms
            else nrd = PyInt 0) \<and>
           res = map_of (metrics_map_of env kd kn skd nrd) |` set req"
proof -
  note pre = read_nsys_report_precheck [OF assms]
  note unf = read_nsys_report_unfold [OF pre]
  let ?K = "''nvtx_kern_sum'' \<in> set (reports_required_of req)"
  let ?S = "''nvtx_sum'' \<in> set (reports_required_of req)"
  define kb where "kb =
           (if ?K
            then case csv_file env ''nvtx_kern_sum'' of
                    None \<Rightarrow> Inr ([], [], PyInt 0)
                  | Some rows \<Rightarrow>
                      and_then (kern_sum_rows env rows ([], [])) (\<lambda>(kernel_duration, kernel_names).
                        Inr (kernel_duration, kernel_names, py_sum kernel_duration))
             else Inr ([], [], PyInt 0))"
  define nv where "nv =
            (if ?S
             then case csv_file env ''nvtx_sum'' of
                    None \<Rightarrow> Inr (PyInt 0)
                  | Some rows \<Rightarrow>
                      if length rows \<noteq> 1 then Inl (AssertionError [])
                      else and_then (total_time_ms env (rows ! 0)) (\<lambda>ms. Inr (PyFloat ms))
             else Inr (PyInt 0))"
  have run: "and_then kb (\<lambda>(kd, kn, skd). and_then nv (\<lambda>nrd.
               Inr (map_of (metrics_map_of env kd kn skd nrd) |` set req))) = Inr res"
    using assms unfolding unf kb_def nv_def .
  obtain kd kn skd where kb: "kb = Inr (kd, kn, skd)"
    using run by (cases kb) auto
  obtain nrd where nv: "nv = Inr nrd"
    using run kb by (cases nv) auto
  have res: "res = map_of (metrics_map_of env kd kn skd nrd) |` set req"
    using run kb nv by simp
  note kern = kb [unfolded kb_def]
  note nvtx = nv [unfolded nv_def]
  have 1: "if ?K
           then \<exists>rows. csv_file env ''nvtx_kern_sum'' = Some rows \<and>
                  kern_sum_rows env rows ([], []) = Inr (kd, kn) \<and> skd = py_sum kd
           else kd = [] \<and> kn = [] \<and> skd = PyInt 0"
  proof (cases ?K)
    case False
    with kern show ?thesis by simp
  next
    case True
    with pre(4) obtain rows where rows: "csv_file env ''nvtx_kern_sum'' = Some rows"
      by auto
    with kern True show ?thesis
      by (auto simp: and_then_eq_Inr)
  qed
  have 2: "if ?S
           then \<exists>row ms. csv_file env ''nvtx_sum'' = Some [row] \<and>
                  total_time_ms env row = Inr ms \<and> nrd = PyFloat ms
           else nrd = PyInt 0"
  proof (cases ?S)
    case False
    with nvtx show ?thesis by simp
  next
    case True
    with pre(4) obtain rows where rows: "csv_file env ''nvtx_sum'' = Some rows"
      by auto
    with nvtx True have len: "length rows = 1"
      by (auto split: if_splits)
    then obtain row where row: "rows = [row]"
      by (cases rows) auto
    with nvtx True rows show ?thesis
      by (auto simp: and_then_eq_Inr)
  qed
  from 1 2 res show ?thesis by blast
qed

lemma total_time_ms_InrD:
  assumes "total_time_ms env row = Inr ms"
  shows "\<exists>cell ns. row ''Total Time (ns)'' = Some cell \<and> py_float env cell = Some ns \<and>
           ms = ns / 1000000"
  using assms by (auto simp: total_time_ms_def split: option.splits)

lemma read_nsys_report_returns:
  assumes "nsys_report_exists env" and "nsys_stats_succeeds env (reports_required_of req)"
    and "reports_required_of req \<noteq> []"
    and "''nvtx_kern_sum'' \<in> set (reports_required_of req) \<Longrightarrow>
           csv_file env ''nvtx_kern_sum'' = Some rows \<and>
           kern_sum_rows env rows ([], []) = Inr (kd, kn)"
    and "''nvtx_sum'' \<in> set (reports_required_of req) \<Longrightarrow>
           csv_file env ''nvtx_sum'' = Some [row] \<and> total_time_ms env row = Inr ms"
  shows "read_nsys_report env req =
           Inr (map_of (metrics_map_of env
                  (if ''nvtx_kern_sum'' \<in> set (reports_required_of req) then kd else [])
                  (if ''nvtx_kern_sum'' \<in> set (reports_required_of req) then kn else [])
                  (if ''nvtx_kern_sum'' \<in> set (reports_required_of req) then py_sum kd else PyInt 0)
                  (if ''nvtx_sum'' \<in> set (reports_required_of req) then PyFloat ms else PyInt 0))
                |` set req)"
proof -
  have files: "\<forall>r \<in> set (reports_required_of req). csv_file env r \<noteq> None"
  proof
    fix r
    assume r: "r \<in> set (reports_required_of req)"
    from reports_required_subset [OF r] show "csv_file env r \<noteq> None"
    proof
      assume "r = ''nvtx_kern_sum''"
      with r assms(4) show ?thesis by simp
    next
      assume "r = ''nvtx_sum''"
      with r assms(5) show ?thesis by simp
    qed
  qed
  show ?thesis
    unfolding read_nsys_report_unfold [OF assms(1,3,2) files]
    using assms(4,5)
    by (cases "''nvtx_kern_sum'' \<in> set (reports_required_of req)";
        cases "''nvtx_sum'' \<in> set (reports_required_of req)") simp_all
qed

lemma nsys_env_of_simps:
  "nsys_report_exists (nsys_env_of ks ns)" "nsys_stats_succeeds (nsys_env_of ks ns) rs"
  "csv_file (nsys_env_of ks ns) ''nvtx_kern_sum'' = Some ks"
  "csv_file (nsys_env_of ks ns) ''nvtx_sum'' = Some ns"
  "py_str (nsys_env_of ks ns) = example_str"
  "py_float (nsys_env_of ks ns) = example_float"
  by (simp_all add: nsys_env_of_def)

lemma example_cells:
  "kern_row name ns ''Total Time (ns)'' = Some ns" "kern_row name ns ''Kernel Name'' = Some name"
  "range_row ns ''Total Time (ns)'' = Some ns"
  "example_float ''10000000'' = Some 10000000" "example_float ''20000000'' = Some 20000000"
  "example_float ''30000000'' = Some 30000000" "example_float ''100000000'' = Some 100000000"
  by (simp_all add: kern_row_def range_row_def example_float_def)

lemma read_nsys_report_no_metrics:
  "read_nsys_report nenv [] =
     Inl (AssertionError (if nsys_report_exists nenv then ''No nsys reports required''
                          else ''The nsys report at '' @ nsys_report_path nenv @ '' does not exist.''))"
  by (simp add: read_nsys_report_def reports_required_of_def)





section \<open>Claims about the nsys analyzer\<close>

text \<open>
  C4. When the export succeeds and both the per-kernel summary and the range summary
  are parsed (every row has its columns, every \<^verbatim>\<open>Total Time (ns)\<close> cell is a number,
  the range summary has one row), the value returned under \<open>nsys_launch_overhead\<close> is
  the range duration minus the sum of the per-kernel durations, each converted from
  nanoseconds to milliseconds by the division by 1000000. The value is a float and is
  returned as it is, also when it is negative.
\<close>

theorem launch_overhead_is_range_minus_kernels:
  assumes "nsys_report_exists env" and "nsys_stats_succeeds env (reports_required_of req)"
    and "''nsys_launch_overhead'' \<in> set req"
    and "csv_file env ''nvtx_kern_sum'' = Some rows"
    and "map (\<lambda>row. row ''Total Time (ns)'') rows = map Some cells"
    and "map (py_float env) cells = map Some kernel_ns"
    and "map (\<lambda>row. row ''Kernel Name'') rows = map Some names"
    and "csv_file env ''nvtx_sum'' = Some [nvtx_row]"
    and "nvtx_row ''Total Time (ns)'' = Some cell"
    and "py_float env cell = Some range_ns"
  shows "\<exists>res. read_nsys_report env req = Inr res \<and>
           res ''nsys_launch_overhead'' =
             Some (Number (PyFloat (range_ns / 1000000
                                      - sum_list (map (\<lambda>ns. ns / 1000000) kernel_ns))))"
proof -
  let ?ms = "map (\<lambda>ns. ns / 1000000) kernel_ns"
  have K: "''nvtx_kern_sum'' \<in> set (reports_required_of req)"
    and S: "''nvtx_sum'' \<in> set (reports_required_of req)"
    using assms(3) by (simp_all add: kern_sum_required nvtx_sum_required)
  then have ne: "reports_required_of req \<noteq> []"
    by auto
  have files: "\<forall>r \<in> set (reports_required_of req). csv_file env r \<noteq> None"
    using reports_required_subset [of _ req] assms(4,8) by fastforce
  have rows: "kern_sum_rows env rows ([], []) = Inr ([] @ ?ms, [] @ names)"
    by (rule kern_sum_rows_Inr [OF total_time_ms_cells [OF assms(5,6)] assms(7)])
  have range: "total_time_ms env nvtx_row = Inr (range_ns / 1000000)"
    using assms(9,10) by (simp add: total_time_ms_def)
  have "read_nsys_report env req =
          Inr (map_of (metrics_map_of env ?ms names (py_sum ?ms) (PyFloat (range_ns / 1000000)))
                 |` set req)"
    unfolding read_nsys_report_unfold [OF assms(1) ne assms(2) files]
    using K S assms(4,8) rows range by simp
  then show ?thesis
    using assms(3) by (simp add: metrics_map_lookup)
qed

theorem launch_overhead_is_range_minus_kernels_witness:
  "(\<exists>res. read_nsys_report
            (nsys_env_of [kern_row ''gemm'' ''20000000'', kern_row ''copy'' ''30000000'']
                         [range_row ''100000000''])
            [''nsys_launch_overhead''] = Inr res \<and>
          res ''nsys_launch_overhead'' = Some (Number (PyFloat 50))) \<and>
   (\<exists>res. read_nsys_report
            (nsys_env_of [kern_row ''gemm'' ''20000000'', kern_row ''copy'' ''30000000'']
                         [range_row ''10000000''])
            [''nsys_launch_overhead''] = Inr res \<and>
          res ''nsys_launch_overhead'' = Some (Number (PyFloat (- 40))))"
  using launch_overhead_is_range_minus_kernels
          [of "nsys_env_of [kern_row ''gemm'' ''20000000'', kern_row ''copy'' ''30000000'']
                           [range_row ''100000000'']"
              "[''nsys_launch_overhead'']"
              "[kern_row ''gemm'' ''20000000'', kern_row ''copy'' ''30000000'']"
              "[''20000000'', ''30000000'']" "[20000000, 30000000]" "[''gemm'', ''copy'']"
              "range_row ''100000000''" "''100000000''" 100000000]
        launch_overhead_is_range_minus_kernels
          [of "nsys_env_of [kern_row ''gemm'' ''20000000'', kern_row ''copy'' ''30000000'']
                           [range_row ''10000000'']"
              "[''nsys_launch_overhead'']"
              "[kern_row ''gemm'' ''20000000'', kern_row ''copy'' ''30000000'']"
              "[''20000000'', ''30000000'']" "[20000000, 30000000]" "[''gemm'', ''copy'']"
              "range_row ''10000000''" "''10000000''" 10000000]
  by (simp add: nsys_env_of_def kern_row_def range_row_def example_float_def)

text \<open>
  C8. When \<open>nvtx_sum\<close> is among the required reports and its CSV file holds \<open>rows\<close>:
  with any number of rows other than one the call raises and returns nothing, and the
  error is the \<^verbatim>\<open>AssertionError\<close> of line 80 once the export has succeeded and the
  per-kernel summary, if required, has been parsed; with exactly one row whose
  \<^verbatim>\<open>Total Time (ns)\<close> cell is a number, under the same conditions, the call returns
  and the range duration is that cell divided by 1000000; and whenever the call returns,
  \<open>rows\<close> is a single row and the range duration was taken from it.
\<close>

theorem nvtx_sum_exactly_one_row:
  assumes "''nvtx_sum'' \<in> set (reports_required_of req)"
    and "csv_file env ''nvtx_sum'' = Some rows"
  shows "(length rows \<noteq> 1 \<longrightarrow> (\<exists>e. read_nsys_report env req = Inl e)) \<and>
         (length rows \<noteq> 1 \<and> nsys_report_exists env \<and>
          nsys_stats_succeeds env (reports_required_of req) \<and>
          (''nvtx_kern_sum'' \<in> set (reports_required_of req) \<longrightarrow>
             (\<exists>krows out. csv_file env ''nvtx_kern_sum'' = Some krows \<and>
                kern_sum_rows env krows ([], []) = Inr out))
            \<longrightarrow> read_nsys_report env req = Inl (AssertionError [])) \<and>
         (\<forall>row cell ns.
            rows = [row] \<and> row ''Total Time (ns)'' = Some cell \<and> py_float env cell = Some ns \<and>
            nsys_report_exists env \<and> nsys_stats_succeeds env (reports_required_of req) \<and>
            (''nvtx_kern_sum'' \<in> set (reports_required_of req) \<longrightarrow>
               (\<exists>krows out. csv_file env ''nvtx_kern_sum'' = Some krows \<and>
                  kern_sum_rows env krows ([], []) = Inr out))
              \<longrightarrow> (\<exists>res. read_nsys_report env req = Inr res \<and>
                    (''nsys_nvtx_range_duration'' \<in> set req \<longrightarrow>
                       res ''nsys_nvtx_range_duration'' =
                         Some (Number (PyFloat (ns / 1000000)))))) \<and>
         (\<forall>res. read_nsys_report env req = Inr res \<longrightarrow>
            (\<exists>row cell ns. rows = [row] \<and> row ''Total Time (ns)'' = Some cell \<and>
               py_float env cell = Some ns \<and>
               (''nsys_nvtx_range_duration'' \<in> set req \<longrightarrow>
                  res ''nsys_nvtx_range_duration'' = Some (Number (PyFloat (ns / 1000000))))))"
proof -
  let ?K = "''nvtx_kern_sum'' \<in> set (reports_required_of req)"
  have ne: "reports_required_of req \<noteq> []"
    using assms(1) by auto
  have ret: "\<exists>row cell ns. rows = [row] \<and> row ''Total Time (ns)'' = Some cell \<and>
               py_float env cell = Some ns \<and>
               (''nsys_nvtx_range_duration'' \<in> set req \<longrightarrow>
                  res ''nsys_nvtx_range_duration'' = Some (Number (PyFloat (ns / 1000000))))"
    if "read_nsys_report env req = Inr res" for res
  proof -
    from read_nsys_report_InrD [OF that] assms obtain kd kn skd row ms where
      row: "rows = [row]" and ms: "total_time_ms env row = Inr ms"
      and res: "res = map_of (metrics_map_of env kd kn skd (PyFloat ms)) |` set req"
      by auto
    from total_time_ms_InrD [OF ms] obtain cell ns where
      "row ''Total Time (ns)'' = Some cell" "py_float env cell = Some ns" "ms = ns / 1000000"
      by blast
    with row res show ?thesis
      by (simp add: metrics_map_lookup)
  qed
  have err: "\<exists>e. read_nsys_report env req = Inl e" if "length rows \<noteq> 1"
  proof (cases "read_nsys_report env req")
    case (Inl e)
    then show ?thesis by simp
  next
    case (Inr res)
    from ret [OF Inr] that show ?thesis by auto
  qed
  have files: "\<forall>r \<in> set (reports_required_of req). csv_file env r \<noteq> None"
    if "?K \<longrightarrow> (\<exists>krows out. csv_file env ''nvtx_kern_sum'' = Some krows \<and>
                kern_sum_rows env krows ([], []) = Inr out)"
  proof
    fix r
    assume r: "r \<in> set (reports_required_of req)"
    from reports_required_subset [OF r] show "csv_file env r \<noteq> None"
    proof
      assume "r = ''nvtx_kern_sum''"
      with r that show ?thesis by auto
    next
      assume "r = ''nvtx_sum''"
      with assms(2) show ?thesis by simp
    qed
  qed
  have assertion: "read_nsys_report env req = Inl (AssertionError [])"
    if "length rows \<noteq> 1" and "nsys_report_exists env"
      and "nsys_stats_succeeds env (reports_required_of req)"
      and "?K \<longrightarrow> (\<exists>krows out. csv_file env ''nvtx_kern_sum'' = Some krows \<and>
                kern_sum_rows env krows ([], []) = Inr out)"
    unfolding read_nsys_report_unfold [OF that(2) ne that(3) files [OF that(4)]]
    using that(1,4) assms by (cases ?K) auto
  have one: "\<exists>res. read_nsys_report env req = Inr res \<and>
                    (''nsys_nvtx_range_duration'' \<in> set req \<longrightarrow>
                       res ''nsys_nvtx_range_duration'' =
                         Some (Number (PyFloat (ns / 1000000))))"
    if h1: "rows = [row]" and h2: "row ''Total Time (ns)'' = Some cell"
      and h3: "py_float env cell = Some ns"
      and h4: "nsys_report_exists env" and h5: "nsys_stats_succeeds env (reports_required_of req)"
      and h6: "?K \<longrightarrow> (\<exists>krows out. csv_file env ''nvtx_kern_sum'' = Some krows \<and>
                kern_sum_rows env krows ([], []) = Inr out)"
    for row cell ns
  proof -
    have ms: "total_time_ms env row = Inr (ns / 1000000)"
      using h2 h3 by (simp add: total_time_ms_def)
    obtain krows kd kn where
      k: "?K \<Longrightarrow> csv_file env ''nvtx_kern_sum'' = Some krows \<and>
                kern_sum_rows env krows ([], []) = Inr (kd, kn)"
      using h6 by (cases ?K) auto
    have "read_nsys_report env req =
           Inr (map_of (metrics_map_of env
                  (if ?K then kd else []) (if ?K then kn else [])
                  (if ?K then py_sum kd else PyInt 0)
                  (PyFloat (ns / 1000000))) |` set req)"
      using read_nsys_report_returns [OF h4 h5 ne k, of row "ns / 1000000"]
        assms h1 ms by simp
    then show ?thesis
      by (simp add: metrics_map_lookup)
  qed
  show ?thesis
  proof (intro conjI impI allI)
    assume "length rows \<noteq> 1"
    then show "\<exists>e. read_nsys_report env req = Inl e"
      by (rule err)
  next
    assume "length rows \<noteq> 1 \<and> nsys_report_exists env \<and>
          nsys_stats_succeeds env (reports_required_of req) \<and>
          (?K \<longrightarrow> (\<exists>krows out. csv_file env ''nvtx_kern_sum'' = Some krows \<and>
                kern_sum_rows env krows ([], []) = Inr out))"
    then show "read_nsys_report env req = Inl (AssertionError [])"
      by (elim conjE) (rule assertion; assumption)
  next
    fix row cell ns
    assume "rows = [row] \<and> row ''Total Time (ns)'' = Some cell \<and> py_float env cell = Some ns \<and>
            nsys_report_exists env \<and> nsys_stats_succeeds env (reports_required_of req) \<and>
            (?K \<longrightarrow> (\<exists>krows out. csv_file env ''nvtx_kern_sum'' = Some krows \<and>
                  kern_sum_rows env krows ([], []) = Inr out))"
    then show "\<exists>res. read_nsys_report env req = Inr res \<and>
                    (''nsys_nvtx_range_duration'' \<in> set req \<longrightarrow>
                       res ''nsys_nvtx_range_duration'' =
                         Some (Number (PyFloat (ns / 1000000))))"
      by (elim conjE) (rule one; assumption)
  next
    fix res
    assume "read_nsys_report env req = Inr res"
    then show "\<exists>row cell ns. rows = [row] \<and> row ''Total Time (ns)'' = Some cell \<and>
               py_float env cell = Some ns \<and>
               (''nsys_nvtx_range_duration'' \<in> set req \<longrightarrow>
                  res ''nsys_nvtx_range_duration'' = Some (Number (PyFloat (ns / 1000000))))"
      by (rule ret)
  qed
qed

theorem nvtx_sum_exactly_one_row_witness:
  "read_nsys_report
     (nsys_env_of [kern_row ''gemm'' ''20000000'']
                  [range_row ''100000000'', range_row ''10000000''])
     [''nsys_nvtx_range_duration''] = Inl (AssertionError []) \<and>
   read_nsys_report (nsys_env_of [kern_row ''gemm'' ''20000000''] [])
     [''nsys_nvtx_range_duration''] = Inl (AssertionError []) \<and>
   (\<exists>res. read_nsys_report (nsys_env_of [kern_row ''gemm'' ''20000000''] [range_row ''100000000''])
            [''nsys_nvtx_range_duration''] = Inr res \<and>
          res ''nsys_nvtx_range_duration'' = Some (Number (PyFloat 100)))"
proof -
  let ?req = "[''nsys_nvtx_range_duration'']"
  have S: "''nvtx_sum'' \<in> set (reports_required_of ?req)"
    and K: "''nvtx_kern_sum'' \<notin> set (reports_required_of ?req)"
    by (simp_all add: nvtx_sum_required kern_sum_required)
  note two = nvtx_sum_exactly_one_row
      [OF S, of "nsys_env_of [kern_row ''gemm'' ''20000000'']
                   [range_row ''100000000'', range_row ''10000000'']"
             "[range_row ''100000000'', range_row ''10000000'']"]
  note none = nvtx_sum_exactly_one_row
      [OF S, of "nsys_env_of [kern_row ''gemm'' ''20000000''] []" "[]"]
  note one = nvtx_sum_exactly_one_row
      [OF S, of "nsys_env_of [kern_row ''gemm'' ''20000000''] [range_row ''100000000'']"
             "[range_row ''100000000'']"]
  have 1: "read_nsys_report
     (nsys_env_of [kern_row ''gemm'' ''20000000'']
                  [range_row ''100000000'', range_row ''10000000''])
     ?req = Inl (AssertionError [])"
    using two K by (simp add: nsys_env_of_simps)
  have 2: "read_nsys_report (nsys_env_of [kern_row ''gemm'' ''20000000''] [])
     ?req = Inl (AssertionError [])"
    using none K by (simp add: nsys_env_of_simps)
  have 3: "\<exists>res. read_nsys_report
            (nsys_env_of [kern_row ''gemm'' ''20000000''] [range_row ''100000000'']) ?req = Inr res \<and>
          res ''nsys_nvtx_range_duration'' = Some (Number (PyFloat 100))"
    using one K by (simp add: nsys_env_of_simps example_cells)
  from 1 2 3 show ?thesis by (intro conjI)
qed

text \<open>
  C10, as the code has it. When the export succeeds and the per-kernel summary is
  parsed (and the range summary is one parsed row, when a requested metric needs it),
  the call returns and, for the metrics that were requested: \<open>nsys_kernel_durations\<close> is
  a list of strings, \<^verbatim>\<open>str\<close> of each duration in milliseconds, not a list of numbers;
  \<open>nsys_kernel_names\<close> is the list of the names; \<open>nsys_num_of_kernels\<close> is the number of
  rows, which is the length of both lists; \<open>nsys_nvtx_range_duration\<close> is a float; and
  \<open>nsys_gpu_kernel_sum\<close> is a float, the sum of the durations, when the summary has at
  least one data row, and the \<^verbatim>\<open>int\<close> 0 when it has none.
\<close>

theorem nsys_value_types:
  assumes "nsys_report_exists env" and "nsys_stats_succeeds env (reports_required_of req)"
    and "''nvtx_kern_sum'' \<in> set (reports_required_of req)"
    and "csv_file env ''nvtx_kern_sum'' = Some rows"
    and "map (\<lambda>row. row ''Total Time (ns)'') rows = map Some cells"
    and "map (py_float env) cells = map Some kernel_ns"
    and "map (\<lambda>row. row ''Kernel Name'') rows = map Some names"
    and "''nvtx_sum'' \<in> set (reports_required_of req) \<longrightarrow>
           csv_file env ''nvtx_sum'' = Some [nvtx_row] \<and>
           total_time_ms env nvtx_row = Inr range_ms"
  shows "\<exists>res. read_nsys_report env req = Inr res \<and>
           (''nsys_kernel_durations'' \<in> set req \<longrightarrow>
              res ''nsys_kernel_durations'' =
                Some (StrList (map (\<lambda>ns. py_str env (ns / 1000000)) kernel_ns))) \<and>
           (''nsys_kernel_names'' \<in> set req \<longrightarrow>
              res ''nsys_kernel_names'' = Some (StrList names)) \<and>
           (''nsys_num_of_kernels'' \<in> set req \<longrightarrow>
              res ''nsys_num_of_kernels'' = Some (Number (PyInt (int (length rows))))) \<and>
           length (map (\<lambda>ns. py_str env (ns / 1000000)) kernel_ns) = length rows \<and>
           length names = length rows \<and>
           (''nsys_gpu_kernel_sum'' \<in> set req \<longrightarrow>
              res ''nsys_gpu_kernel_sum'' =
                Some (Number (if rows = [] then PyInt 0
                              else PyFloat (sum_list (map (\<lambda>ns. ns / 1000000) kernel_ns))))) \<and>
           (''nsys_nvtx_range_duration'' \<in> set req \<longrightarrow>
              res ''nsys_nvtx_range_duration'' = Some (Number (PyFloat range_ms)))"
proof -
  let ?ms = "map (\<lambda>ns. ns / 1000000) kernel_ns"
  let ?S = "''nvtx_sum'' \<in> set (reports_required_of req)"
  have ne: "reports_required_of req \<noteq> []"
    using assms(3) by auto
  have lens: "length kernel_ns = length rows" "length names = length rows"
    using assms(5,6,7) by (metis length_map)+
  have kern: "kern_sum_rows env rows ([], []) = Inr ([] @ ?ms, [] @ names)"
    by (rule kern_sum_rows_Inr [OF total_time_ms_cells [OF assms(5,6)] assms(7)])
  have ret: "read_nsys_report env req =
          Inr (map_of (metrics_map_of env ?ms names (py_sum ?ms)
                         (if ?S then PyFloat range_ms else PyInt 0)) |` set req)"
    using read_nsys_report_returns [OF assms(1,2) ne, of rows ?ms names nvtx_row range_ms]
      assms(3,4,8) kern by simp
  have sum: "py_sum ?ms = (if rows = [] then PyInt 0 else PyFloat (sum_list ?ms))"
    using lens(1) by (auto simp: py_sum_def)
  have S: "?S" if "''nsys_nvtx_range_duration'' \<in> set req"
    using that by (simp add: nvtx_sum_required)
  show ?thesis
    unfolding ret using lens sum S
    by (simp add: metrics_map_lookup comp_def)
qed

theorem nsys_value_types_witness:
  "\<exists>res. read_nsys_report
           (nsys_env_of [kern_row ''gemm'' ''20000000'', kern_row ''copy'' ''30000000'']
                        [range_row ''100000000''])
           [''nsys_kernel_durations'', ''nsys_kernel_names'', ''nsys_num_of_kernels'',
            ''nsys_gpu_kernel_sum'', ''nsys_nvtx_range_duration''] = Inr res \<and>
     res ''nsys_kernel_durations'' = Some (StrList [''20.0'', ''30.0'']) \<and>
     res ''nsys_kernel_names'' = Some (StrList [''gemm'', ''copy'']) \<and>
     res ''nsys_num_of_kernels'' = Some (Number (PyInt 2)) \<and>
     res ''nsys_gpu_kernel_sum'' = Some (Number (PyFloat 50)) \<and>
     res ''nsys_nvtx_range_duration'' = Some (Number (PyFloat 100))"
proof -
  let ?rows = "[kern_row ''gemm'' ''20000000'', kern_row ''copy'' ''30000000'']"
  let ?env = "nsys_env_of ?rows [range_row ''100000000'']"
  let ?req = "[''nsys_kernel_durations'', ''nsys_kernel_names'', ''nsys_num_of_kernels'',
               ''nsys_gpu_kernel_sum'', ''nsys_nvtx_range_duration'']"
  have K: "''nvtx_kern_sum'' \<in> set (reports_required_of ?req)"
    by (simp add: kern_sum_required)
  have range: "total_time_ms ?env (range_row ''100000000'') = Inr 100"
    by (simp add: total_time_ms_def nsys_env_of_simps example_cells)
  from nsys_value_types
         [of ?env ?req ?rows "[''20000000'', ''30000000'']" "[20000000, 30000000]"
             "[''gemm'', ''copy'']" "range_row ''100000000''" 100, OF _ _ K]
  show ?thesis
    by (simp add: nsys_env_of_simps example_cells range example_str_def)
qed

text \<open>
  C10 as stated fails where it says that \<open>nsys_gpu_kernel_sum\<close> is a float whenever the
  per-kernel summary is parsed: on a summary without data rows \<^verbatim>\<open>sum([])\<close> is the
  \<^verbatim>\<open>int\<close> 0, and that is what is returned.
\<close>

theorem kernel_sum_of_no_rows_is_int:
  "\<exists>res. read_nsys_report (nsys_env_of [] [range_row ''100000000''])
           [''nsys_gpu_kernel_sum''] = Inr res \<and>
         res ''nsys_gpu_kernel_sum'' = Some (Number (PyInt 0))"
proof -
  let ?env = "nsys_env_of [] [range_row ''100000000'']"
  have K: "''nvtx_kern_sum'' \<in> set (reports_required_of [''nsys_gpu_kernel_sum''])"
    by (simp add: kern_sum_required)
  then have ne: "reports_required_of [''nsys_gpu_kernel_sum''] \<noteq> []"
    by auto
  have range: "total_time_ms ?env (range_row ''100000000'') = Inr 100"
    by (simp add: total_time_ms_def nsys_env_of_simps example_cells)
  show ?thesis
    using read_nsys_report_returns [of ?env "[''nsys_gpu_kernel_sum'']" "[]" "[]" "[]"
            "range_row ''100000000''" 100] ne K range
    by (simp add: nsys_env_of_simps metrics_map_lookup py_sum_def)
qed

section \<open>Claims about both analyzers\<close>

text \<open>
  C6, as the code has it. With an empty collection of requested metrics,
  \<open>read_nsys_report\<close> raises \<^verbatim>\<open>AssertionError\<close>: the assertion that the report file
  exists, or else \<^verbatim>\<open>No nsys reports required\<close>, whatever the export command and the
  CSV files would give, since neither is reached. \<open>read_ncu_report\<close> loads the report
  all the same: once the report file and the vendor's module are found it returns an
  empty mapping when the report has at least one range and its default range at least
  one kernel action, and raises \<^verbatim>\<open>AssertionError\<close> when the report has no range or the
  default range no action.
\<close>

theorem no_metrics_requested:
  "read_nsys_report nenv [] =
     Inl (AssertionError (if nsys_report_exists nenv then ''No nsys reports required''
                          else ''The nsys report at '' @ nsys_report_path nenv @ '' does not exist.'')) \<and>
   (report_exists env \<and> import_ncu_python_path env = Inr () \<longrightarrow>
      (\<forall>ks rs. report_ranges env = ks # rs \<and> ks \<noteq> [] \<longrightarrow>
         (\<exists>res. read_ncu_report env [] = Inr res \<and> result_keys res = [])) \<and>
      (report_ranges env = [] \<or> (\<exists>rs. report_ranges env = [] # rs) \<longrightarrow>
         (\<exists>msg. read_ncu_report env [] = Inl (AssertionError msg))))"
proof (intro conjI impI allI)
  show "read_nsys_report nenv [] =
     Inl (AssertionError (if nsys_report_exists nenv then ''No nsys reports required''
                          else ''The nsys report at '' @ nsys_report_path nenv @ '' does not exist.''))"
    by (rule read_nsys_report_no_metrics)
next
  fix ks rs
  assume "report_exists env \<and> import_ncu_python_path env = Inr ()"
    and "report_ranges env = ks # rs \<and> ks \<noteq> []"
  then show "\<exists>res. read_ncu_report env [] = Inr res \<and> result_keys res = []"
    by (elim conjE) (rule read_ncu_report_no_metrics)
next
  assume "report_exists env \<and> import_ncu_python_path env = Inr ()"
    and "report_ranges env = [] \<or> (\<exists>rs. report_ranges env = [] # rs)"
  then show "\<exists>msg. read_ncu_report env [] = Inl (AssertionError msg)"
    by (auto simp: read_ncu_report_def)
qed

theorem no_metrics_requested_witness:
  "read_nsys_report (nsys_env_of [kern_row ''gemm'' ''20000000''] [range_row ''100000000'']) [] =
     Inl (AssertionError ''No nsys reports required'') \<and>
   (\<exists>res. read_ncu_report (ncu_env_of [[kernel_A]]) [] = Inr res \<and> result_keys res = []) \<and>
   (\<exists>msg. read_ncu_report (ncu_env_of [[]]) [] = Inl (AssertionError msg))"
  using no_metrics_requested
          [of "nsys_env_of [kern_row ''gemm'' ''20000000''] [range_row ''100000000'']"
              "ncu_env_of [[kernel_A]]"]
        no_metrics_requested
          [of "nsys_env_of [kern_row ''gemm'' ''20000000''] [range_row ''100000000'']"
              "ncu_env_of [[]]"]
  by (simp add: ncu_env_of_simps nsys_env_of_simps)

text \<open>
  C6 as stated fails: \<open>read_nsys_report\<close> with no metric raises instead of returning an
  empty mapping, and \<open>read_ncu_report\<close> with no metric reads the report, as its
  assertion on a report without ranges shows.
\<close>

theorem no_metrics_is_an_error_for_nsys:
  "read_nsys_report (nsys_env_of [] []) [] = Inl (AssertionError ''No nsys reports required'') \<and>
   read_ncu_report (ncu_env_of []) [] =
     Inl (AssertionError ''No profile data found in the NCU report at bench.ncu-rep'')"
  by (simp add: read_nsys_report_no_metrics nsys_env_of_simps read_ncu_report_def ncu_env_of_simps)




end
